theory Spec2Isabelle
  imports Complex_Main
begin

section \<open>Data model\<close>

text \<open>
  A row of the \<open>books\<close> table, as the dictionaries that \<open>get_book_by_id\<close> and
  \<open>get_book_by_isbn\<close> hand to \<open>library_service.py\<close>.
\<close>

record book =
  book_id :: int
  title :: string
  author :: string
  isbn :: string
  total_copies :: int
  available_copies :: int

text \<open>
  A date column of a borrow row, classified by what the service does with the value \<open>v\<close>
  it reads: \<open>Missing\<close> is a value that is false for Python (\<open>None\<close>, the empty string
  or an absent key), \<open>Unparseable\<close> a true value on which
  \<open>datetime.fromisoformat(str(v))\<close> raises \<open>ValueError\<close>, and \<open>IsoDay d\<close> a value
  that parses to a datetime whose \<open>.date()\<close> is day number \<open>d\<close>. The service only ever
  subtracts two such dates and reads \<open>.days\<close>, so the day number is all it observes.
\<close>

datatype stored_date = Missing | Unparseable | IsoDay int

record borrow_record =
  patron_id :: string
  borrowed_book_id :: int
  borrow_date :: stored_date
  due_date :: stored_date
  return_date :: stored_date

text \<open>The calls of \<open>library_service.py\<close> into the \<open>database\<close> module.\<close>

datatype db_call =
    GetBookById int
  | GetBookByIsbn string
  | GetPatronBorrowCount string
  | InsertBook string string string int int
  | InsertBorrowRecord string int int int
  | UpdateBookAvailability int int
  | UpdateBorrowRecordReturnDate string int "int option"

text \<open>
  The state of the storage collaborator: the two tables, the outcomes of the writes still
  to come (\<open>True\<close>: the write goes through; an empty list: every further write goes
  through) and the log of the calls made so far.
\<close>

record db =
  books :: "book list"
  borrow_records :: "borrow_record list"
  outcomes :: "bool list"
  calls :: "db_call list"

datatype py_error = ValueError

text \<open>
  The messages of the service. A constructor stands for the literal text beside it and
  carries the values that the f-string interpolates.
  \<^item> \<open>TitleRequired\<close>: "Title is required."
  \<^item> \<open>TitleTooLong\<close>: "Title must be less than 200 characters."
  \<^item> \<open>AuthorRequired\<close>: "Author is required."
  \<^item> \<open>AuthorTooLong\<close>: "Author must be less than 100 characters."
  \<^item> \<open>IsbnInvalid\<close>: "ISBN must be exactly 13 digits."
  \<^item> \<open>TotalCopiesInvalid\<close>: "Total copies must be a positive integer."
  \<^item> \<open>BookAdded t\<close>: 'Book "t" has been successfully added to the catalog.'
  \<^item> \<open>DbErrorAddingBook\<close>: "Database error occurred while adding the book."
  \<^item> \<open>InvalidPatronId\<close>: "Invalid patron ID. Must be exactly 6 digits."
  \<^item> \<open>BookNotFound\<close>: "Book not found."
  \<^item> \<open>NotAvailable\<close>: "This book is currently not available."
  \<^item> \<open>BorrowLimitReached\<close>: "You have reached the maximum borrowing limit of 5 books."
  \<^item> \<open>DbErrorBorrowRecord\<close>: "Database error occurred while creating borrow record."
  \<^item> \<open>DbErrorAvailability\<close>: "Database error occurred while updating book availability."
  \<^item> \<open>Borrowed t d\<close>: 'Successfully borrowed "t". Due date: d.' (\<open>d\<close> the due day)
  \<^item> \<open>NoActiveBorrow\<close>: "No active borrow record found for this patron and book."
  \<^item> \<open>BookNotFoundDuringUpdate\<close>: "Book not found during update."
  \<^item> \<open>DbErrorReturnAvailability\<close>: "Database error while updating book availability."
  \<^item> \<open>ReturnedLate t n f\<close>: 'Returned "t". n day(s) overdue. Late fee: $f.'
  \<^item> \<open>ReturnedOnTime t\<close>: 'Returned "t" on time. No late fee.'
  \<^item> \<open>NoRecordOrDueDate\<close>: "No active/known borrow record or due date unavailable."
  \<^item> \<open>ReturnedHistorical\<close>: "Returned; historical fee at return date calculated."
  \<^item> \<open>NotYetReturned\<close>: "Not yet returned; fee calculated as of today."
\<close>

datatype message =
    TitleRequired
  | TitleTooLong
  | AuthorRequired
  | AuthorTooLong
  | IsbnInvalid
  | TotalCopiesInvalid
  | BookAdded string
  | DbErrorAddingBook
  | InvalidPatronId
  | BookNotFound
  | NotAvailable
  | BorrowLimitReached
  | DbErrorBorrowRecord
  | DbErrorAvailability
  | Borrowed string int
  | NoActiveBorrow
  | BookNotFoundDuringUpdate
  | DbErrorReturnAvailability
  | ReturnedLate string int rat
  | ReturnedOnTime string
  | NoRecordOrDueDate
  | ReturnedHistorical
  | NotYetReturned

text \<open>The dictionary that \<open>calculate_late_fee_for_book\<close> returns.\<close>

record fee_quote =
  fee_amount :: rat
  days_overdue :: int
  status :: message

section \<open>Strings and numbers of the Python runtime\<close>

text \<open>
  \<open>str.isdigit\<close>, \<open>str.isspace\<close> and \<open>str.strip\<close>. A character of a string is a
  code point below 256 here, and the two tests are Python's on that range. The digits
  are \<open>0\<close> to \<open>9\<close> and the superscripts two, three and one (\<open>0xB2\<close>, \<open>0xB3\<close>,
  \<open>0xB9\<close>); an empty string has no digits. The white space is the blank, the controls
  \<open>0x09\<close> to \<open>0x0D\<close>, the separators \<open>0x1C\<close> to \<open>0x1F\<close>, the next-line control
  \<open>0x85\<close> and the no-break space \<open>0xA0\<close>. \<open>strip\<close> removes the white space at both
  ends.
\<close>

definition isdigit :: "string \<Rightarrow> bool" where
  "isdigit s \<longleftrightarrow>
     s \<noteq> [] \<and> (\<forall>c \<in> set s. c \<in> set (''0123456789'' @ [CHR 0xB2, CHR 0xB3, CHR 0xB9]))"

definition isspace :: "char \<Rightarrow> bool" where
  "isspace c \<longleftrightarrow> c \<in> set [CHR '' '', CHR 0x09, CHR 0x0A, CHR 0x0B, CHR 0x0C, CHR 0x0D,
                          CHR 0x1C, CHR 0x1D, CHR 0x1E, CHR 0x1F, CHR 0x85, CHR 0xA0]"

definition strip :: "string \<Rightarrow> string" where
  "strip s = rev (dropWhile isspace (rev (dropWhile isspace s)))"

text \<open>
  \<open>round(x, 2)\<close>: the nearest multiple of 0.01, a tie going to the even one. Amounts are
  rationals here: every float the fee arithmetic meets is a multiple of 0.5 (a whole
  number of days times 0.50 or 1.00, their sum, or 15.00), which binary floating point
  holds exactly for any number of days that two calendar dates can be apart, so the
  float operations of the source and the exact ones agree.
\<close>

definition round2 :: "rat \<Rightarrow> rat" where
  "round2 x =
     (let y = x * 100; f = \<lfloor>y\<rfloor>; r = y - of_int f
      in (if r < 1 / 2 then of_int f
          else if 1 / 2 < r then of_int (f + 1)
          else if even f then of_int f else of_int (f + 1)) / 100)"

section \<open>Storage collaborator\<close>

text \<open>
  Modelled from the spec: the \<open>database\<close> module is not among the sources; section 6 of
  the specification gives the contract of each call, followed here. Every call is
  logged. A write takes the next outcome: when that is \<open>False\<close> the write returns
  \<open>False\<close> and leaves both tables as they are. A read with \<open>return_date = None\<close>
  is part of the contract, so the \<open>TypeError\<close> that \<open>calculate_late_fee_for_book\<close>
  is prepared to catch around it does not arise.
\<close>

definition log_call :: "db_call \<Rightarrow> db \<Rightarrow> db" where
  "log_call c s = s\<lparr>calls := calls s @ [c]\<rparr>"

definition attempt_write :: "db \<Rightarrow> bool \<times> db" where
  "attempt_write s =
     (case outcomes s of
        [] \<Rightarrow> (True, s)
      | ok # rest \<Rightarrow> (ok, s\<lparr>outcomes := rest\<rparr>))"

definition get_book_by_id :: "int \<Rightarrow> db \<Rightarrow> book option \<times> db" where
  "get_book_by_id bid s =
     (find (\<lambda>b. book_id b = bid) (books s), log_call (GetBookById bid) s)"

definition get_book_by_isbn :: "string \<Rightarrow> db \<Rightarrow> book option \<times> db" where
  "get_book_by_isbn i s =
     (find (\<lambda>b. isbn b = i) (books s), log_call (GetBookByIsbn i) s)"

definition is_active :: "string \<Rightarrow> borrow_record \<Rightarrow> bool" where
  "is_active pid r \<longleftrightarrow> patron_id r = pid \<and> return_date r = Missing"

definition get_patron_borrow_count :: "string \<Rightarrow> db \<Rightarrow> int \<times> db" where
  "get_patron_borrow_count pid s =
     (int (length (filter (is_active pid) (borrow_records s))),
      log_call (GetPatronBorrowCount pid) s)"

definition fresh_book_id :: "book list \<Rightarrow> int" where
  "fresh_book_id bs = fold max (map book_id bs) 0 + 1"

definition insert_book :: "string \<Rightarrow> string \<Rightarrow> string \<Rightarrow> int \<Rightarrow> int \<Rightarrow> db \<Rightarrow> bool \<times> db" where
  "insert_book t a i copies avail s =
     (let (ok, s1) = attempt_write (log_call (InsertBook t a i copies avail) s)
      in if ok
         then (True, s1\<lparr>books := books s1 @
                 [\<lparr>book_id = fresh_book_id (books s1), title = t, author = a, isbn = i,
                   total_copies = copies, available_copies = avail\<rparr>]\<rparr>)
         else (False, s1))"

definition insert_borrow_record :: "string \<Rightarrow> int \<Rightarrow> int \<Rightarrow> int \<Rightarrow> db \<Rightarrow> bool \<times> db" where
  "insert_borrow_record pid bid borrowed due s =
     (let (ok, s1) = attempt_write (log_call (InsertBorrowRecord pid bid borrowed due) s)
      in if ok
         then (True, s1\<lparr>borrow_records := borrow_records s1 @
                 [\<lparr>patron_id = pid, borrowed_book_id = bid, borrow_date = IsoDay borrowed,
                   due_date = IsoDay due, return_date = Missing\<rparr>]\<rparr>)
         else (False, s1))"

definition add_copies :: "int \<Rightarrow> int \<Rightarrow> book \<Rightarrow> book" where
  "add_copies bid delta b =
     (if book_id b = bid then b\<lparr>available_copies := available_copies b + delta\<rparr> else b)"

definition update_book_availability :: "int \<Rightarrow> int \<Rightarrow> db \<Rightarrow> bool \<times> db" where
  "update_book_availability bid delta s =
     (let (ok, s1) = attempt_write (log_call (UpdateBookAvailability bid delta) s)
      in if ok
         then (True, s1\<lparr>books := map (add_copies bid delta) (books s1)\<rparr>)
         else (False, s1))"

definition find_active :: "string \<Rightarrow> int \<Rightarrow> borrow_record list \<Rightarrow> borrow_record option" where
  "find_active pid bid rs = find (\<lambda>r. is_active pid r \<and> borrowed_book_id r = bid) rs"

text \<open>
  The record that a read (\<open>return_date = None\<close>) resolves: the active record of the
  patron for the book when there is one, otherwise the most recent record of the pair.
\<close>

definition resolve_record :: "string \<Rightarrow> int \<Rightarrow> borrow_record list \<Rightarrow> borrow_record option" where
  "resolve_record pid bid rs =
     (case find_active pid bid rs of
        Some r \<Rightarrow> Some r
      | None \<Rightarrow> find (\<lambda>r. patron_id r = pid \<and> borrowed_book_id r = bid) (rev rs))"

text \<open>Marking the first active record of the pair as returned on day \<open>d\<close>.\<close>

fun mark_returned :: "string \<Rightarrow> int \<Rightarrow> int \<Rightarrow> borrow_record list \<Rightarrow> borrow_record list" where
  "mark_returned pid bid d [] = []"
| "mark_returned pid bid d (r # rs) =
     (if is_active pid r \<and> borrowed_book_id r = bid
      then r\<lparr>return_date := IsoDay d\<rparr> # rs
      else r # mark_returned pid bid d rs)"

definition update_borrow_record_return_date ::
  "string \<Rightarrow> int \<Rightarrow> int option \<Rightarrow> db \<Rightarrow> borrow_record option \<times> db" where
  "update_borrow_record_return_date pid bid when s =
     (let s0 = log_call (UpdateBorrowRecordReturnDate pid bid when) s
      in case when of
           None \<Rightarrow> (resolve_record pid bid (borrow_records s0), s0)
         | Some d \<Rightarrow>
             (case find_active pid bid (borrow_records s0) of
                None \<Rightarrow> (None, s0)
              | Some r \<Rightarrow>
                  (let (ok, s1) = attempt_write s0
                   in if ok
                      then (Some (r\<lparr>return_date := IsoDay d\<rparr>),
                            s1\<lparr>borrow_records := mark_returned pid bid d (borrow_records s1)\<rparr>)
                      else (None, s1))))"

section \<open>Lending engine (\<open>library_service.py\<close>)\<close>

text \<open>
  Each function takes the arguments of the source, then the day that \<open>datetime.now()\<close>
  falls on, then the storage state, and returns its result with the new storage state.
\<close>

definition add_book_to_catalog ::
  "string \<Rightarrow> string \<Rightarrow> string \<Rightarrow> int \<Rightarrow> db \<Rightarrow> (bool \<times> message) \<times> db" where
  "add_book_to_catalog t a i copies s =
     (if t = [] \<or> strip t = [] then ((False, TitleRequired), s)
      else if 200 < length (strip t) then ((False, TitleTooLong), s)
      else if a = [] \<or> strip a = [] then ((False, AuthorRequired), s)
      else if 100 < length (strip a) then ((False, AuthorTooLong), s)
      else if length i \<noteq> 13 \<or> \<not> isdigit i then ((False, IsbnInvalid), s)
      else if copies \<le> 0 then ((False, TotalCopiesInvalid), s)
      else
        let (existing, s1) = get_book_by_isbn i s
        in if existing \<noteq> None then ((True, BookAdded (strip t)), s1)
           else
             let (success, s2) = insert_book (strip t) (strip a) i copies copies s1
             in if success then ((True, BookAdded (strip t)), s2)
                else ((False, DbErrorAddingBook), s2))"

definition valid_patron_id :: "string \<Rightarrow> bool" where
  "valid_patron_id pid \<longleftrightarrow> \<not> (pid = [] \<or> \<not> isdigit pid \<or> length pid \<noteq> 6)"

definition borrow_book_by_patron ::
  "string \<Rightarrow> int \<Rightarrow> int \<Rightarrow> db \<Rightarrow> (bool \<times> message) \<times> db" where
  "borrow_book_by_patron pid bid today s =
     (if pid = [] \<or> \<not> isdigit pid \<or> length pid \<noteq> 6 then ((False, InvalidPatronId), s)
      else
        let (book, s1) = get_book_by_id bid s
        in case book of
             None \<Rightarrow> ((False, BookNotFound), s1)
           | Some bk \<Rightarrow>
               if available_copies bk \<le> 0 then ((False, NotAvailable), s1)
               else
                 let (current_borrowed, s2) = get_patron_borrow_count pid s1
                 in if 5 \<le> current_borrowed then ((False, BorrowLimitReached), s2)
                    else
                      let borrowed = today;
                          due = borrowed + 14;
                          (borrow_success, s3) = insert_borrow_record pid bid borrowed due s2
                      in if \<not> borrow_success then ((False, DbErrorBorrowRecord), s3)
                         else
                           let (availability_success, s4) = update_book_availability bid (- 1) s3
                           in if \<not> availability_success
                              then ((False, DbErrorAvailability), s4)
                              else ((True, Borrowed (title bk) due), s4))"

definition return_book_by_patron ::
  "string \<Rightarrow> int \<Rightarrow> int \<Rightarrow> db \<Rightarrow> (bool \<times> message) \<times> db" where
  "return_book_by_patron pid bid today s =
     (if pid = [] \<or> \<not> isdigit pid \<or> length pid \<noteq> 6 then ((False, InvalidPatronId), s)
      else
        let (book, s1) = get_book_by_id bid s
        in case book of
             None \<Rightarrow> ((False, BookNotFound), s1)
           | Some bk \<Rightarrow>
               let (updated, s2) = update_borrow_record_return_date pid bid (Some today) s1
               in case updated of
                    None \<Rightarrow> ((False, NoActiveBorrow), s2)
                  | Some row \<Rightarrow>
                      let (fresh, s3) = get_book_by_id bid s2
                      in case fresh of
                           None \<Rightarrow> ((False, BookNotFoundDuringUpdate), s3)
                         | Some fr \<Rightarrow>
                             let (written, s4) =
                                   (if available_copies fr < total_copies fr
                                    then update_book_availability bid 1 s3
                                    else (True, s3))
                             in if \<not> written then ((False, DbErrorReturnAvailability), s4)
                                else
                                  let (overdue, fee) =
                                        (case due_date row of
                                           IsoDay due \<Rightarrow>
                                             let n = max 0 (today - due)
                                             in if 0 < n
                                                then (n, round2 (min (of_int (min n 7) * (1 / 2)
                                                            + of_int (max (n - 7) 0) * 1) 15))
                                                else (n, 0)
                                         | Unparseable \<Rightarrow> (0, 0)
                                         | Missing \<Rightarrow> (0, 0))
                                  in if 0 < overdue \<and> 0 < fee
                                     then ((True, ReturnedLate (title bk) overdue fee), s4)
                                     else ((True, ReturnedOnTime (title bk)), s4))"

definition calculate_late_fee_for_book ::
  "string \<Rightarrow> int \<Rightarrow> int \<Rightarrow> db \<Rightarrow> (py_error + fee_quote) \<times> db" where
  "calculate_late_fee_for_book pid bid today s =
     (if pid = [] \<or> \<not> isdigit pid \<or> length pid \<noteq> 6
      then (Inr \<lparr>fee_amount = 0, days_overdue = 0, status = InvalidPatronId\<rparr>, s)
      else
        let (book, s1) = get_book_by_id bid s
        in case book of
             None \<Rightarrow> (Inr \<lparr>fee_amount = 0, days_overdue = 0, status = BookNotFound\<rparr>, s1)
           | Some bk \<Rightarrow>
               let (row, s2) = update_borrow_record_return_date pid bid None s1
               in case row of
                    None \<Rightarrow>
                      (Inr \<lparr>fee_amount = 0, days_overdue = 0, status = NoRecordOrDueDate\<rparr>, s2)
                  | Some r \<Rightarrow>
                      (case due_date r of
                         Missing \<Rightarrow>
                           (Inr \<lparr>fee_amount = 0, days_overdue = 0,
                                 status = NoRecordOrDueDate\<rparr>, s2)
                       | Unparseable \<Rightarrow> (Inl ValueError, s2)
                       | IsoDay due \<Rightarrow>
                           let (asof, st) =
                                 (case return_date r of
                                    IsoDay returned \<Rightarrow> (returned, ReturnedHistorical)
                                  | Unparseable \<Rightarrow> (today, ReturnedHistorical)
                                  | Missing \<Rightarrow> (today, NotYetReturned));
                               n = max 0 (asof - due);
                               fee = (if n \<le> 0 then 0
                                      else round2 (min (of_int (min n 7) * (1 / 2)
                                             + of_int (max (n - 7) 0) * 1) 15))
                           in (Inr \<lparr>fee_amount = fee, days_overdue = n, status = st\<rparr>, s2)))"

section \<open>Payment orchestrator\<close>

text \<open>
  What a gateway's \<open>process_payment\<close> does with a call: it raises, or it returns the
  triple (success, transaction id, message). A gateway is its \<open>process_payment\<close>, a
  function of patron id, amount and description.
\<close>

datatype gateway_reply = GatewayRaises | GatewayReturns bool string string

type_synonym payment_gateway = "string \<Rightarrow> rat \<Rightarrow> string \<Rightarrow> gateway_reply"

type_synonym gateway_call = "string \<times> rat \<times> string"

text \<open>
  The messages of \<open>payLateFees\<close>: "unable to calculate late fee", "no late fees owed",
  "book not found", the generic payment error, the gateway's own message on a decline,
  and the message of a successful charge.
\<close>

datatype payment_message =
    UnableToCalculate
  | NoLateFeesOwed
  | PaymentBookNotFound
  | PaymentError
  | Declined string
  | PaymentAccepted

text \<open>
  Modelled from the spec: \<open>pay_late_fees\<close> lives in a module that is not among the
  sources (only its tests are); the steps are those of section 4.4 of the specification,
  in its order, and the charge description is the one the tests expect. The quote is a
  record that always has its fee field, so the step for a quote without one has no case
  here; a quote that raises is passed on, the specification naming no handler for it.
  The arguments are the patron, the book, the gateway supplied (if any), the gateway
  that the orchestrator constructs when none is supplied, the current day and the
  storage. The result comes with the list of \<open>process_payment\<close> calls made.
\<close>

definition pay_late_fees ::
  "string \<Rightarrow> int \<Rightarrow> payment_gateway option \<Rightarrow> payment_gateway \<Rightarrow> int \<Rightarrow> db \<Rightarrow>
     (py_error + bool \<times> payment_message \<times> string option) \<times> gateway_call list \<times> db" where
  "pay_late_fees pid bid payment_gateway default_gateway today s =
     (let (quote, s1) = calculate_late_fee_for_book pid bid today s
      in case quote of
           Inl e \<Rightarrow> (Inl e, [], s1)
         | Inr q \<Rightarrow>
             if fee_amount q = 0 then (Inr (False, NoLateFeesOwed, None), [], s1)
             else
               let (book, s2) = get_book_by_id bid s1
               in case book of
                    None \<Rightarrow> (Inr (False, PaymentBookNotFound, None), [], s2)
                  | Some bk \<Rightarrow>
                      let gateway = (case payment_gateway of
                                       None \<Rightarrow> default_gateway
                                     | Some g \<Rightarrow> g);
                          description = ''Late fees for '' @ [CHR 0x27] @ title bk @ [CHR 0x27]
                      in case gateway pid (fee_amount q) description of
                           GatewayRaises \<Rightarrow>
                             (Inr (False, PaymentError, None),
                              [(pid, fee_amount q, description)], s2)
                         | GatewayReturns ok txn msg \<Rightarrow>
                             if ok
                             then (Inr (True, PaymentAccepted, Some txn),
                                   [(pid, fee_amount q, description)], s2)
                             else (Inr (False, Declined msg, None),
                                   [(pid, fee_amount q, description)], s2))"

section \<open>Sequences of operations\<close>

text \<open>
  A client of the lending engine issues operations one after the other; borrow and
  return carry the day on which they are issued.
\<close>

datatype operation =
    AddBook string string string int
  | Borrow string int int
  | Return string int int

fun apply_operation :: "operation \<Rightarrow> db \<Rightarrow> db" where
  "apply_operation (AddBook t a i copies) s = snd (add_book_to_catalog t a i copies s)"
| "apply_operation (Borrow pid bid today) s = snd (borrow_book_by_patron pid bid today s)"
| "apply_operation (Return pid bid today) s = snd (return_book_by_patron pid bid today s)"

fun run :: "operation list \<Rightarrow> db \<Rightarrow> db" where
  "run [] s = s"
| "run (x # xs) s = run xs (apply_operation x s)"

definition empty_db :: "bool list \<Rightarrow> db" where
  "empty_db os = \<lparr>books = [], borrow_records = [], outcomes = os, calls = []\<rparr>"

section \<open>Example data\<close>

text \<open>
  A catalogue of one book with \<open>n\<close> of its 3 copies available, a loan of that book to
  patron 123456 with the given due and return dates, and a storage holding both.
\<close>

definition dune :: "int \<Rightarrow> book" where
  "dune n = \<lparr>book_id = 1, title = ''Dune'', author = ''Frank Herbert'',
             isbn = ''9780441013593'', total_copies = 3, available_copies = n\<rparr>"

definition loan :: "stored_date \<Rightarrow> stored_date \<Rightarrow> borrow_record" where
  "loan due returned = \<lparr>patron_id = ''123456'', borrowed_book_id = 1,
             borrow_date = IsoDay 86, due_date = due, return_date = returned\<rparr>"

definition library :: "int \<Rightarrow> borrow_record list \<Rightarrow> bool list \<Rightarrow> db" where
  "library n rs os = \<lparr>books = [dune n], borrow_records = rs, outcomes = os, calls = []\<rparr>"

text \<open>
  A session on an empty catalogue: one copy of a book is added, borrowed, asked for by
  a second patron, returned, and returned once more.
\<close>

definition session :: "operation list" where
  "session = [AddBook '' Dune '' ''Frank Herbert'' ''9780441013593'' 1,
              Borrow ''123456'' 1 100, Borrow ''654321'' 1 100,
              Return ''123456'' 1 110, Return ''123456'' 1 111]"

section \<open>The properties of the specification\<close>

text \<open>
  The fee policy in the words of section 4.1 of the specification, as a function of the
  days overdue.
\<close>

definition spec_computeLateFee :: "int \<Rightarrow> rat" where
  "spec_computeLateFee n =
     (if n = 0 then 0
      else round2 (min (of_int (min n 7) * (1 / 2) + of_int (max (n - 7) 0) * 1) 15))"

text \<open>
  The book table is well formed when ids are unique (the id is the key of the table) and
  every counter is within its bounds.
\<close>

definition within_bounds :: "book \<Rightarrow> bool" where
  "within_bounds b \<longleftrightarrow> 0 \<le> available_copies b \<and> available_copies b \<le> total_copies b"

definition books_ok :: "db \<Rightarrow> bool" where
  "books_ok s \<longleftrightarrow> distinct (map book_id (books s)) \<and> list_all within_bounds (books s)"

text \<open>
  A valid book input is one that none of the checks of \<open>add_book_to_catalog\<close> (lines 21
  to 35) turns away.
\<close>

definition passes_validation :: "string \<Rightarrow> string \<Rightarrow> string \<Rightarrow> int \<Rightarrow> bool" where
  "passes_validation t a i copies \<longleftrightarrow>
     \<not> (t = [] \<or> strip t = []) \<and> \<not> 200 < length (strip t) \<and>
     \<not> (a = [] \<or> strip a = []) \<and> \<not> 100 < length (strip a) \<and>
     \<not> (length i \<noteq> 13 \<or> \<not> isdigit i) \<and> \<not> copies \<le> 0"

text \<open>
  The as-of date of a quote in the words of section 4.2 of the specification: the return
  date of a returned record, the current day for an active one.
\<close>

definition spec_as_of :: "borrow_record \<Rightarrow> int \<Rightarrow> int \<Rightarrow> bool" where
  "spec_as_of r today a \<longleftrightarrow>
     return_date r = IsoDay a \<or> (return_date r = Missing \<and> today = a)"

section \<open>Helper lemmas\<close>

subsection \<open>The fee arithmetic\<close>

lemma round2_half: "round2 (of_int k / 2) = of_int k / 2"
proof -
  have "(of_int k / 2 :: rat) * 100 = of_int (50 * k)" by simp
  then show ?thesis
    unfolding round2_def Let_def by (simp del: of_int_mult)
qed

lemma spec_fee_closed:
  assumes n: "0 \<le> n"
  shows "spec_computeLateFee n =
     (if n \<le> 7 then of_int n / 2 else if n \<le> 18 then of_int n - 7 / 2 else 15)"
proof -
  consider "n = 0" | "0 < n" "n \<le> 7" | "7 < n" "n \<le> 18" | "18 < n" using n by linarith
  then show ?thesis
  proof cases
    case 1 then show ?thesis by (simp add: spec_computeLateFee_def)
  next
    case 2
    then have "spec_computeLateFee n = round2 (of_int n / 2)"
      by (simp add: spec_computeLateFee_def min_def max_def)
    then show ?thesis using 2 by (simp add: round2_half)
  next
    case 3
    have v: "of_int (min n 7) * (1 / 2) + of_int (max (n - 7) 0) * 1 = (of_int (2 * n - 7) / 2 :: rat)"
      using 3 by (simp add: field_simps min_def max_def)
    have le: "(of_int (2 * n - 7) / 2 :: rat) \<le> 15" using 3 by (simp add: field_simps)
    have "spec_computeLateFee n = round2 (of_int (2 * n - 7) / 2)"
      unfolding spec_computeLateFee_def v using 3 le by (simp only: min_absorb1 if_False) simp
    also have "\<dots> = of_int (2 * n - 7) / 2" by (rule round2_half)
    also have "\<dots> = of_int n - 7 / 2" by (simp add: field_simps)
    finally show ?thesis using 3 by simp
  next
    case 4
    then have "(15::rat) \<le> 7 / 2 + (of_int n - 7)" by (simp add: field_simps)
    with 4 have "spec_computeLateFee n = round2 15"
      by (simp add: spec_computeLateFee_def min_def max_def)
    then show ?thesis using 4 round2_half [of 30] by simp
  qed
qed

lemma spec_fee_pos: "0 < n \<Longrightarrow> 0 < spec_computeLateFee n"
  by (simp add: spec_fee_closed)

subsection \<open>Character tests on concrete strings\<close>

lemma valid_patron_id_123456: "valid_patron_id ''123456''"
  by (simp add: valid_patron_id_def isdigit_def)

subsection \<open>The quote and the return message of a resolved loan\<close>

lemma find_active_resolve:
  "find_active pid bid rs = Some r \<Longrightarrow> resolve_record pid bid rs = Some r"
  by (simp add: resolve_record_def)

lemma find_active_is_active:
  "find_active pid bid rs = Some r \<Longrightarrow> return_date r = Missing"
  by (auto simp: find_active_def find_Some_iff is_active_def)

lemma calculate_resolved:
  assumes "valid_patron_id pid"
    and "fst (get_book_by_id bid s) = Some bk"
    and "fst (update_borrow_record_return_date pid bid None s) = Some r"
    and "due_date r = IsoDay due"
  shows "fst (calculate_late_fee_for_book pid bid today s) =
           Inr \<lparr>fee_amount = spec_computeLateFee
                    (max 0 ((case return_date r of IsoDay t \<Rightarrow> t | _ \<Rightarrow> today) - due)),
                 days_overdue = max 0 ((case return_date r of IsoDay t \<Rightarrow> t | _ \<Rightarrow> today) - due),
                 status = (case return_date r of Missing \<Rightarrow> NotYetReturned
                           | _ \<Rightarrow> ReturnedHistorical)\<rparr>"
  using assms
  by (cases "return_date r")
     (simp_all add: calculate_late_fee_for_book_def valid_patron_id_def Let_def
        get_book_by_id_def update_borrow_record_return_date_def log_call_def
        spec_computeLateFee_def)

lemma return_message:
  assumes "valid_patron_id pid"
    and "fst (get_book_by_id bid s) = Some bk"
    and "find_active pid bid (borrow_records s) = Some r"
    and "due_date r = IsoDay due"
    and "fst (fst (return_book_by_patron pid bid today s))"
  shows "snd (fst (return_book_by_patron pid bid today s)) =
           (if today \<le> due then ReturnedOnTime (title bk)
            else ReturnedLate (title bk) (today - due) (spec_computeLateFee (today - due)))"
proof -
  have pos: "0 < today - due \<Longrightarrow> 0 < round2 (min (of_int (min (today - due) 7) * (1 / 2)
                                     + of_int (max (today - due - 7) 0) * 1) 15)"
    using spec_fee_pos [of "today - due"] by (simp add: spec_computeLateFee_def)
  show ?thesis
    using assms pos
    by (auto simp: return_book_by_patron_def valid_patron_id_def Let_def
        get_book_by_id_def update_borrow_record_return_date_def log_call_def
        update_book_availability_def attempt_write_def
        spec_computeLateFee_def max_def split: list.splits if_splits)
qed

section \<open>Theorems\<close>

text \<open>
  C2. The late fee of the fee policy, as \<open>calculate_late_fee_for_book\<close> and
  \<open>return_book_by_patron\<close> compute it for a loan that is \<open>n \<ge> 0\<close> days past its due
  date, is the formula of the specification: 0 for \<open>n = 0\<close>, and otherwise
  \<open>min(min(n, 7) * 0.50 + max(n - 7, 0) * 1.00, 15.00)\<close> rounded to two decimals (which
  is \<open>n / 2\<close> up to 7 days, \<open>n - 3.5\<close> up to 18 days and 15 from then on). The quote
  carries this fee with \<open>n\<close> days overdue, a successful return reports it in its
  message, and 10 days overdue cost exactly 6.50.
\<close>

theorem late_fee_formula:
  assumes "0 \<le> n"
    and "valid_patron_id pid"
    and "fst (get_book_by_id bid s) = Some bk"
    and "find_active pid bid (borrow_records s) = Some r"
    and "due_date r = IsoDay due"
  shows "fst (calculate_late_fee_for_book pid bid (due + n) s) =
           Inr \<lparr>fee_amount = spec_computeLateFee n, days_overdue = n,
                 status = NotYetReturned\<rparr>
       \<and> (fst (fst (return_book_by_patron pid bid (due + n) s)) \<longrightarrow>
            snd (fst (return_book_by_patron pid bid (due + n) s)) =
              (if n = 0 then ReturnedOnTime (title bk)
               else ReturnedLate (title bk) n (spec_computeLateFee n)))
       \<and> spec_computeLateFee n =
            (if n = 0 then 0
             else round2 (min (of_int (min n 7) * (1 / 2) + of_int (max (n - 7) 0) * 1) 15))
       \<and> spec_computeLateFee n =
            (if n \<le> 7 then of_int n / 2 else if n \<le> 18 then of_int n - 7 / 2 else 15)
       \<and> spec_computeLateFee 0 = 0
       \<and> spec_computeLateFee 10 = 13 / 2"
proof -
  have res: "fst (update_borrow_record_return_date pid bid None s) = Some r"
    using assms(4)
    by (simp add: update_borrow_record_return_date_def log_call_def find_active_resolve)
  have act: "return_date r = Missing"
    using assms(4) by (rule find_active_is_active)
  have quote: "fst (calculate_late_fee_for_book pid bid (due + n) s) =
           Inr \<lparr>fee_amount = spec_computeLateFee n, days_overdue = n,
                 status = NotYetReturned\<rparr>"
    using calculate_resolved [OF assms(2,3) res assms(5), of "due + n"] assms(1) act
    by simp
  have ret: "fst (fst (return_book_by_patron pid bid (due + n) s)) \<longrightarrow>
            snd (fst (return_book_by_patron pid bid (due + n) s)) =
              (if n = 0 then ReturnedOnTime (title bk)
               else ReturnedLate (title bk) n (spec_computeLateFee n))"
    using return_message [OF assms(2,3,4,5), of "due + n"] assms(1) by auto
  have ten: "spec_computeLateFee 10 = 13 / 2"
    using spec_fee_closed [of 10] by simp
  show ?thesis
    using quote ret ten spec_fee_closed [OF assms(1)]
    by (simp add: spec_computeLateFee_def)
qed

theorem late_fee_formula_witness:
  "fst (calculate_late_fee_for_book ''123456'' 1 110
      \<lparr>books = [\<lparr>book_id = 1, title = ''Dune'', author = ''Herbert'', isbn = ''1234567890123'',
                 total_copies = 3, available_copies = 2\<rparr>],
       borrow_records = [\<lparr>patron_id = ''123456'', borrowed_book_id = 1, borrow_date = IsoDay 86,
                 due_date = IsoDay 100, return_date = Missing\<rparr>],
       outcomes = [], calls = []\<rparr>) =
     Inr \<lparr>fee_amount = 13 / 2, days_overdue = 10, status = NotYetReturned\<rparr>
   \<and> fst (return_book_by_patron ''123456'' 1 110
      \<lparr>books = [\<lparr>book_id = 1, title = ''Dune'', author = ''Herbert'', isbn = ''1234567890123'',
                 total_copies = 3, available_copies = 2\<rparr>],
       borrow_records = [\<lparr>patron_id = ''123456'', borrowed_book_id = 1, borrow_date = IsoDay 86,
                 due_date = IsoDay 100, return_date = Missing\<rparr>],
       outcomes = [], calls = []\<rparr>) = (True, ReturnedLate ''Dune'' 10 (13 / 2))"
proof -
  let ?b = "\<lparr>book_id = 1, title = ''Dune'', author = ''Herbert'', isbn = ''1234567890123'',
                 total_copies = 3, available_copies = 2\<rparr>"
  let ?r = "\<lparr>patron_id = ''123456'', borrowed_book_id = 1, borrow_date = IsoDay 86,
                 due_date = IsoDay 100, return_date = Missing\<rparr>"
  let ?s = "\<lparr>books = [?b], borrow_records = [?r], outcomes = [], calls = []\<rparr>"
  have n: "(0::int) \<le> 10" by simp
  have bk: "fst (get_book_by_id 1 ?s) = Some ?b" by (simp add: get_book_by_id_def)
  have ac: "find_active ''123456'' 1 (borrow_records ?s) = Some ?r"
    by (simp add: find_active_def is_active_def)
  have du: "due_date ?r = IsoDay 100" by simp
  have ok: "fst (fst (return_book_by_patron ''123456'' 1 110 ?s))"
    using valid_patron_id_123456
    by (simp add: return_book_by_patron_def valid_patron_id_def Let_def
        get_book_by_id_def update_borrow_record_return_date_def log_call_def
        update_book_availability_def attempt_write_def find_active_def is_active_def
        round2_def)
  show ?thesis
    using late_fee_formula [OF n valid_patron_id_123456 bk ac du] ok
    by (simp add: prod_eq_iff)
qed

subsection \<open>Monotonicity and ceiling of the fee\<close>

lemma spec_fee_mono:
  assumes "0 \<le> a" and "a \<le> b"
  shows "spec_computeLateFee a \<le> spec_computeLateFee b"
proof -
  have b: "0 \<le> b" using assms by simp
  have ra: "(of_int a :: rat) \<le> of_int b" using assms by simp
  show ?thesis
    unfolding spec_fee_closed [OF assms(1)] spec_fee_closed [OF b]
    using assms ra by (auto simp: field_simps)
qed

lemma spec_fee_le_15:
  assumes "0 \<le> n"
  shows "spec_computeLateFee n \<le> 15"
  unfolding spec_fee_closed [OF assms] by (auto simp: field_simps)

lemma quote_fee_is_spec:
  assumes "fst (calculate_late_fee_for_book pid bid today s) = Inr q"
  shows "0 \<le> days_overdue q \<and> fee_amount q = spec_computeLateFee (days_overdue q)"
  using assms
  by (auto simp: calculate_late_fee_for_book_def Let_def get_book_by_id_def
      update_borrow_record_return_date_def log_call_def spec_computeLateFee_def
      split: if_splits option.splits stored_date.splits)
subsection \<open>The example data\<close>

lemma library_book: "fst (get_book_by_id 1 (library n rs os)) = Some (dune n)"
  by (simp add: get_book_by_id_def library_def dune_def)

lemma library_resolved_one:
  "fst (update_borrow_record_return_date ''123456'' 1 None (library n [loan d t] os))
     = Some (loan d t)"
  by (simp add: update_borrow_record_return_date_def log_call_def library_def loan_def
      resolve_record_def find_active_def is_active_def)

lemma library_resolved_none:
  "fst (update_borrow_record_return_date ''123456'' 1 None (library n [] os)) = None"
  by (simp add: update_borrow_record_return_date_def log_call_def library_def
      resolve_record_def find_active_def)

lemma library_active:
  "find_active ''123456'' 1 (borrow_records (library n [loan d Missing] os))
     = Some (loan d Missing)"
  by (simp add: library_def loan_def find_active_def is_active_def)

lemma loan_dates: "due_date (loan d t) = d" "return_date (loan d t) = t"
  by (simp_all add: loan_def)

lemma spec_fee_values:
  "spec_computeLateFee 0 = 0" "spec_computeLateFee 3 = 3 / 2"
  "spec_computeLateFee 10 = 13 / 2" "spec_computeLateFee 30 = 15"
  using spec_fee_closed [of 0] spec_fee_closed [of 3] spec_fee_closed [of 10]
    spec_fee_closed [of 30]
  by simp_all

text \<open>
  C7. For a valid patron id and an existing book, the quote is computed as of the return
  date when the resolved record has one, as of the current day when the record is active,
  and is the zero quote with the status "No active/known borrow record or due date
  unavailable." when no record is resolved or the record has no due date. (The due date
  of the first two cases is one that parses.)
\<close>

theorem quote_as_of_date:
  assumes "valid_patron_id pid"
    and "fst (get_book_by_id bid s) = Some bk"
  shows "(fst (update_borrow_record_return_date pid bid None s) = Some r
            \<and> due_date r = IsoDay due \<and> return_date r = IsoDay t \<longrightarrow>
          fst (calculate_late_fee_for_book pid bid today s) =
            Inr \<lparr>fee_amount = spec_computeLateFee (max 0 (t - due)),
                  days_overdue = max 0 (t - due), status = ReturnedHistorical\<rparr>)
       \<and> (fst (update_borrow_record_return_date pid bid None s) = Some r
            \<and> due_date r = IsoDay due \<and> return_date r = Missing \<longrightarrow>
          fst (calculate_late_fee_for_book pid bid today s) =
            Inr \<lparr>fee_amount = spec_computeLateFee (max 0 (today - due)),
                  days_overdue = max 0 (today - due), status = NotYetReturned\<rparr>)
       \<and> (fst (update_borrow_record_return_date pid bid None s) = None
            \<or> (fst (update_borrow_record_return_date pid bid None s) = Some r
                 \<and> due_date r = Missing) \<longrightarrow>
          fst (calculate_late_fee_for_book pid bid today s) =
            Inr \<lparr>fee_amount = 0, days_overdue = 0, status = NoRecordOrDueDate\<rparr>)"
proof (intro conjI impI)
  assume a: "fst (update_borrow_record_return_date pid bid None s) = Some r
            \<and> due_date r = IsoDay due \<and> return_date r = IsoDay t"
  then show "fst (calculate_late_fee_for_book pid bid today s) =
            Inr \<lparr>fee_amount = spec_computeLateFee (max 0 (t - due)),
                  days_overdue = max 0 (t - due), status = ReturnedHistorical\<rparr>"
    using calculate_resolved [OF assms, of r due today] by simp
next
  assume a: "fst (update_borrow_record_return_date pid bid None s) = Some r
            \<and> due_date r = IsoDay due \<and> return_date r = Missing"
  then show "fst (calculate_late_fee_for_book pid bid today s) =
            Inr \<lparr>fee_amount = spec_computeLateFee (max 0 (today - due)),
                  days_overdue = max 0 (today - due), status = NotYetReturned\<rparr>"
    using calculate_resolved [OF assms, of r due today] by simp
next
  assume "fst (update_borrow_record_return_date pid bid None s) = None
            \<or> (fst (update_borrow_record_return_date pid bid None s) = Some r
                 \<and> due_date r = Missing)"
  then show "fst (calculate_late_fee_for_book pid bid today s) =
            Inr \<lparr>fee_amount = 0, days_overdue = 0, status = NoRecordOrDueDate\<rparr>"
    using assms
    by (auto simp: calculate_late_fee_for_book_def valid_patron_id_def Let_def
        get_book_by_id_def update_borrow_record_return_date_def log_call_def)
qed

theorem quote_as_of_date_witness:
  "fst (calculate_late_fee_for_book ''123456'' 1 110
          (library 2 [loan (IsoDay 100) (IsoDay 103)] [])) =
     Inr \<lparr>fee_amount = 3 / 2, days_overdue = 3, status = ReturnedHistorical\<rparr>
   \<and> fst (calculate_late_fee_for_book ''123456'' 1 110
          (library 2 [loan (IsoDay 100) Missing] [])) =
     Inr \<lparr>fee_amount = 13 / 2, days_overdue = 10, status = NotYetReturned\<rparr>
   \<and> fst (calculate_late_fee_for_book ''123456'' 1 110 (library 2 [] [])) =
     Inr \<lparr>fee_amount = 0, days_overdue = 0, status = NoRecordOrDueDate\<rparr>
   \<and> fst (calculate_late_fee_for_book ''123456'' 1 110
          (library 2 [loan Missing Missing] [])) =
     Inr \<lparr>fee_amount = 0, days_overdue = 0, status = NoRecordOrDueDate\<rparr>"
  using
    quote_as_of_date [OF valid_patron_id_123456 library_book,
      of 2 "[loan (IsoDay 100) (IsoDay 103)]" "[]" "loan (IsoDay 100) (IsoDay 103)" 100 103 110]
    quote_as_of_date [OF valid_patron_id_123456 library_book,
      of 2 "[loan (IsoDay 100) Missing]" "[]" "loan (IsoDay 100) Missing" 100 0 110]
    quote_as_of_date [OF valid_patron_id_123456 library_book,
      of 2 "[]" "[]" "loan Missing Missing" 0 0 110]
    quote_as_of_date [OF valid_patron_id_123456 library_book,
      of 2 "[loan Missing Missing]" "[]" "loan Missing Missing" 0 0 110]
  by (simp add: library_resolved_one library_resolved_none loan_dates spec_fee_values)

text \<open>
  C8. For a fixed due date the quoted fee does not decrease when the as-of date grows:
  of two quotes for records with the same due date, the one with the later as-of date
  (the return date of a returned record, the current day for an active one) has the
  larger or equal fee. No quote exceeds 15.00, whatever the number of days overdue, and
  no return reports a fee above 15.00.
\<close>

theorem fee_monotone_and_capped:
  assumes "valid_patron_id pid"
    and "fst (get_book_by_id bid s1) = Some bk1"
    and "fst (get_book_by_id bid s2) = Some bk2"
    and "fst (update_borrow_record_return_date pid bid None s1) = Some r1"
    and "fst (update_borrow_record_return_date pid bid None s2) = Some r2"
    and "due_date r1 = IsoDay due"
    and "due_date r2 = IsoDay due"
    and "spec_as_of r1 today1 a1"
    and "spec_as_of r2 today2 a2"
    and "a1 \<le> a2"
  shows "(\<exists>q1 q2. fst (calculate_late_fee_for_book pid bid today1 s1) = Inr q1
            \<and> fst (calculate_late_fee_for_book pid bid today2 s2) = Inr q2
            \<and> fee_amount q1 \<le> fee_amount q2)
       \<and> (\<forall>p b d s q. fst (calculate_late_fee_for_book p b d s) = Inr q
            \<longrightarrow> 0 \<le> fee_amount q \<and> fee_amount q \<le> 15)
       \<and> (\<forall>p b d s t n f. snd (fst (return_book_by_patron p b d s)) = ReturnedLate t n f
            \<longrightarrow> 0 < f \<and> f \<le> 15)"
proof (intro conjI allI impI)
  have q1: "fst (calculate_late_fee_for_book pid bid today1 s1) =
      Inr \<lparr>fee_amount = spec_computeLateFee (max 0 (a1 - due)),
            days_overdue = max 0 (a1 - due),
            status = (case return_date r1 of Missing \<Rightarrow> NotYetReturned
                      | _ \<Rightarrow> ReturnedHistorical)\<rparr>"
    using calculate_resolved [OF assms(1,2,4,6), of today1] assms(8)
    by (auto simp: spec_as_of_def)
  have q2: "fst (calculate_late_fee_for_book pid bid today2 s2) =
      Inr \<lparr>fee_amount = spec_computeLateFee (max 0 (a2 - due)),
            days_overdue = max 0 (a2 - due),
            status = (case return_date r2 of Missing \<Rightarrow> NotYetReturned
                      | _ \<Rightarrow> ReturnedHistorical)\<rparr>"
    using calculate_resolved [OF assms(1,3,5,7), of today2] assms(9)
    by (auto simp: spec_as_of_def)
  have "spec_computeLateFee (max 0 (a1 - due)) \<le> spec_computeLateFee (max 0 (a2 - due))"
    using assms(10) by (intro spec_fee_mono) auto
  then show "\<exists>q1 q2. fst (calculate_late_fee_for_book pid bid today1 s1) = Inr q1
            \<and> fst (calculate_late_fee_for_book pid bid today2 s2) = Inr q2
            \<and> fee_amount q1 \<le> fee_amount q2"
    unfolding q1 q2 by simp
next
  fix p b d s q
  assume "fst (calculate_late_fee_for_book p b d s) = Inr q"
  from quote_fee_is_spec [OF this]
  have d: "0 \<le> days_overdue q" and f: "fee_amount q = spec_computeLateFee (days_overdue q)"
    by simp_all
  show "0 \<le> fee_amount q"
    unfolding f using spec_fee_mono [of 0 "days_overdue q"] d
    by (simp add: spec_computeLateFee_def)
  show "fee_amount q \<le> 15"
    unfolding f using d by (rule spec_fee_le_15)
next
  fix p b d s t n f
  assume m: "snd (fst (return_book_by_patron p b d s)) = ReturnedLate t n f"
  have "0 < n \<and> 0 < f \<and> f = spec_computeLateFee n"
    using m
    by (auto simp: return_book_by_patron_def Let_def get_book_by_id_def
        update_borrow_record_return_date_def log_call_def update_book_availability_def
        attempt_write_def spec_computeLateFee_def max_def
        split: if_splits option.splits stored_date.splits list.splits)
  then show "0 < f" and "f \<le> 15"
    using spec_fee_le_15 [of n] by simp_all
qed
theorem fee_monotone_and_capped_witness:
  "spec_as_of (loan (IsoDay 100) Missing) 103 103
   \<and> spec_as_of (loan (IsoDay 100) (IsoDay 130)) 200 130
   \<and> (\<exists>q1 q2.
         fst (calculate_late_fee_for_book ''123456'' 1 103
                (library 2 [loan (IsoDay 100) Missing] [])) = Inr q1
       \<and> fst (calculate_late_fee_for_book ''123456'' 1 200
                (library 2 [loan (IsoDay 100) (IsoDay 130)] [])) = Inr q2
       \<and> fee_amount q1 \<le> fee_amount q2 \<and> fee_amount q2 \<le> 15)"
proof -
  have a1: "spec_as_of (loan (IsoDay 100) Missing) 103 103"
    and a2: "spec_as_of (loan (IsoDay 100) (IsoDay 130)) 200 130"
    by (simp_all add: spec_as_of_def loan_dates)
  have le: "(103::int) \<le> 130" by simp
  from fee_monotone_and_capped [OF valid_patron_id_123456 library_book library_book
      library_resolved_one library_resolved_one loan_dates(1) loan_dates(1) a1 a2 le,
      of 2 "[]" 2 "[]"]
  show ?thesis using a1 a2 by blast
qed

text \<open>
  C4. A due date that does not parse. \<open>return_book_by_patron\<close> tolerates it: a return
  that succeeds reports no late fee. \<open>calculate_late_fee_for_book\<close> does not: whenever
  the patron id is valid, the book exists and the resolved record has such a due date,
  the \<open>ValueError\<close> of \<open>datetime.fromisoformat\<close> leaves the function, where the
  specification asks for the quote with 0 days overdue and fee 0.00.
\<close>

theorem unparseable_due_date_raises:
  assumes "valid_patron_id pid"
    and "fst (get_book_by_id bid s) = Some bk"
    and "find_active pid bid (borrow_records s) = Some r"
    and "due_date r = Unparseable"
  shows "fst (calculate_late_fee_for_book pid bid today s) = Inl ValueError
       \<and> (fst (fst (return_book_by_patron pid bid today s)) \<longrightarrow>
            snd (fst (return_book_by_patron pid bid today s)) = ReturnedOnTime (title bk))"
proof
  show "fst (calculate_late_fee_for_book pid bid today s) = Inl ValueError"
    using assms
    by (simp add: calculate_late_fee_for_book_def valid_patron_id_def Let_def
        get_book_by_id_def update_borrow_record_return_date_def log_call_def
        find_active_resolve)
  show "fst (fst (return_book_by_patron pid bid today s)) \<longrightarrow>
            snd (fst (return_book_by_patron pid bid today s)) = ReturnedOnTime (title bk)"
    using assms
    by (auto simp: return_book_by_patron_def valid_patron_id_def Let_def
        get_book_by_id_def update_borrow_record_return_date_def log_call_def
        update_book_availability_def attempt_write_def
        split: list.splits if_splits)
qed

theorem unparseable_due_date_raises_witness:
  "fst (calculate_late_fee_for_book ''123456'' 1 110
          (library 2 [loan Unparseable Missing] [])) = Inl ValueError
   \<and> fst (return_book_by_patron ''123456'' 1 110
          (library 2 [loan Unparseable Missing] [])) = (True, ReturnedOnTime ''Dune'')"
proof -
  have ok: "fst (fst (return_book_by_patron ''123456'' 1 110
          (library 2 [loan Unparseable Missing] [])))"
    using valid_patron_id_123456
    by (simp add: return_book_by_patron_def valid_patron_id_def Let_def
        get_book_by_id_def update_borrow_record_return_date_def log_call_def
        update_book_availability_def attempt_write_def find_active_def is_active_def
        library_def loan_def dune_def)
  have "fst (calculate_late_fee_for_book ''123456'' 1 110
          (library 2 [loan Unparseable Missing] [])) = Inl ValueError
       \<and> (fst (fst (return_book_by_patron ''123456'' 1 110
                (library 2 [loan Unparseable Missing] []))) \<longrightarrow>
            snd (fst (return_book_by_patron ''123456'' 1 110
                (library 2 [loan Unparseable Missing] []))) = ReturnedOnTime (title (dune 2)))"
    by (rule unparseable_due_date_raises [OF valid_patron_id_123456 library_book
          library_active loan_dates(1)])
  then show ?thesis using ok by (simp add: prod_eq_iff dune_def)
qed

subsection \<open>Borrowing\<close>

lemmas borrow_defs =
  borrow_book_by_patron_def valid_patron_id_def Let_def get_book_by_id_def
  get_patron_borrow_count_def insert_borrow_record_def update_book_availability_def
  attempt_write_def log_call_def

lemma borrow_not_available:
  assumes "valid_patron_id pid"
    and "fst (get_book_by_id bid s) = Some bk"
    and "available_copies bk \<le> 0"
  shows "borrow_book_by_patron pid bid today s =
           ((False, NotAvailable), s\<lparr>calls := calls s @ [GetBookById bid]\<rparr>)"
  using assms by (simp add: borrow_defs)

lemma borrow_limit_reached:
  assumes "valid_patron_id pid"
    and "fst (get_book_by_id bid s) = Some bk"
    and "0 < available_copies bk"
    and "5 \<le> fst (get_patron_borrow_count pid s)"
  shows "borrow_book_by_patron pid bid today s =
           ((False, BorrowLimitReached),
            s\<lparr>calls := calls s @ [GetBookById bid, GetPatronBorrowCount pid]\<rparr>)"
  using assms by (simp add: borrow_defs)

lemma borrow_at_limit_fails:
  assumes "5 \<le> fst (get_patron_borrow_count pid s)"
  shows "\<not> fst (fst (borrow_book_by_patron pid bid today s))
       \<and> books (snd (borrow_book_by_patron pid bid today s)) = books s
       \<and> borrow_records (snd (borrow_book_by_patron pid bid today s)) = borrow_records s
       \<and> outcomes (snd (borrow_book_by_patron pid bid today s)) = outcomes s"
  using assms by (simp add: borrow_defs split: option.splits)

lemma borrow_success_count:
  assumes "fst (fst (borrow_book_by_patron pid bid today s))"
  shows "fst (get_patron_borrow_count pid s) < 5
       \<and> fst (get_patron_borrow_count pid (snd (borrow_book_by_patron pid bid today s)))
           = fst (get_patron_borrow_count pid s) + 1"
  using assms
  by (auto simp: borrow_defs is_active_def split: option.splits if_splits list.splits)

lemma borrow_writes:
  assumes "valid_patron_id pid"
    and "fst (get_book_by_id bid s) = Some bk"
    and "0 < available_copies bk"
    and "fst (get_patron_borrow_count pid s) < 5"
  shows "borrow_book_by_patron pid bid today s =
     (case outcomes s of
        False # os \<Rightarrow>
          ((False, DbErrorBorrowRecord),
           s\<lparr>outcomes := os,
             calls := calls s @ [GetBookById bid, GetPatronBorrowCount pid,
                        InsertBorrowRecord pid bid today (today + 14)]\<rparr>)
      | True # False # os \<Rightarrow>
          ((False, DbErrorAvailability),
           s\<lparr>borrow_records := borrow_records s @
                [\<lparr>patron_id = pid, borrowed_book_id = bid, borrow_date = IsoDay today,
                  due_date = IsoDay (today + 14), return_date = Missing\<rparr>],
             outcomes := os,
             calls := calls s @ [GetBookById bid, GetPatronBorrowCount pid,
                        InsertBorrowRecord pid bid today (today + 14),
                        UpdateBookAvailability bid (- 1)]\<rparr>)
      | os \<Rightarrow>
          ((True, Borrowed (title bk) (today + 14)),
           s\<lparr>books := map (add_copies bid (- 1)) (books s),
             borrow_records := borrow_records s @
                [\<lparr>patron_id = pid, borrowed_book_id = bid, borrow_date = IsoDay today,
                  due_date = IsoDay (today + 14), return_date = Missing\<rparr>],
             outcomes := drop 2 os,
             calls := calls s @ [GetBookById bid, GetPatronBorrowCount pid,
                        InsertBorrowRecord pid bid today (today + 14),
                        UpdateBookAvailability bid (- 1)]\<rparr>))"
  using assms by (simp add: borrow_defs split: list.splits bool.splits)
lemma library_count:
  "fst (get_patron_borrow_count ''123456'' (library n rs os)) =
     int (length (filter (is_active ''123456'') rs))"
  by (simp add: get_patron_borrow_count_def library_def)

lemma loan_active: "is_active ''123456'' (loan d Missing)"
  by (simp add: is_active_def loan_def)

text \<open>
  C10. In \<open>borrow_book_by_patron\<close> the availability check comes before the borrow-limit
  check: for a valid patron id and an existing book with \<open>available_copies \<le> 0\<close> the
  result is the failure "This book is currently not available.", whatever the patron's
  number of active loans, and the only storage call made is the lookup of the book: the
  patron's borrow count is not asked for, and nothing is written.
\<close>

theorem availability_check_precedes_limit:
  assumes "valid_patron_id pid"
    and "fst (get_book_by_id bid s) = Some bk"
    and "available_copies bk \<le> 0"
  shows "fst (borrow_book_by_patron pid bid today s) = (False, NotAvailable)
       \<and> calls (snd (borrow_book_by_patron pid bid today s)) = calls s @ [GetBookById bid]
       \<and> GetPatronBorrowCount pid \<notin>
            set (drop (length (calls s)) (calls (snd (borrow_book_by_patron pid bid today s))))
       \<and> books (snd (borrow_book_by_patron pid bid today s)) = books s
       \<and> borrow_records (snd (borrow_book_by_patron pid bid today s)) = borrow_records s
       \<and> outcomes (snd (borrow_book_by_patron pid bid today s)) = outcomes s"
  unfolding borrow_not_available [OF assms] by simp

theorem availability_check_precedes_limit_witness:
  "fst (get_patron_borrow_count ''123456''
      (library 0 [loan (IsoDay 100) Missing, loan (IsoDay 100) Missing,
                  loan (IsoDay 100) Missing, loan (IsoDay 100) Missing,
                  loan (IsoDay 100) Missing, loan (IsoDay 100) Missing] [])) = 6
   \<and> fst (borrow_book_by_patron ''123456'' 1 110
      (library 0 [loan (IsoDay 100) Missing, loan (IsoDay 100) Missing,
                  loan (IsoDay 100) Missing, loan (IsoDay 100) Missing,
                  loan (IsoDay 100) Missing, loan (IsoDay 100) Missing] []))
       = (False, NotAvailable)
   \<and> calls (snd (borrow_book_by_patron ''123456'' 1 110
      (library 0 [loan (IsoDay 100) Missing, loan (IsoDay 100) Missing,
                  loan (IsoDay 100) Missing, loan (IsoDay 100) Missing,
                  loan (IsoDay 100) Missing, loan (IsoDay 100) Missing] [])))
       = [GetBookById 1]"
proof -
  have av: "available_copies (dune 0) \<le> 0" by (simp add: dune_def)
  from availability_check_precedes_limit [OF valid_patron_id_123456 library_book av]
  show ?thesis by (simp add: library_count loan_active) (simp add: library_def)
qed

text \<open>
  C3. A borrow by a patron whose count of active loans is 5 or more fails, creates no
  borrow record and changes no availability counter; when the earlier checks pass (valid
  patron id, existing book, a copy available) the failure is the message "You have
  reached the maximum borrowing limit of 5 books." and nothing beyond the two reads is
  done. Hence after a successful borrow the patron's count of active loans is at most 5.
\<close>

theorem borrow_limit_enforced:
  "(5 \<le> fst (get_patron_borrow_count pid s) \<longrightarrow>
      \<not> fst (fst (borrow_book_by_patron pid bid today s))
      \<and> books (snd (borrow_book_by_patron pid bid today s)) = books s
      \<and> borrow_records (snd (borrow_book_by_patron pid bid today s)) = borrow_records s)
   \<and> (5 \<le> fst (get_patron_borrow_count pid s) \<and> valid_patron_id pid
        \<and> fst (get_book_by_id bid s) = Some bk \<and> 0 < available_copies bk \<longrightarrow>
      borrow_book_by_patron pid bid today s =
        ((False, BorrowLimitReached),
         s\<lparr>calls := calls s @ [GetBookById bid, GetPatronBorrowCount pid]\<rparr>))
   \<and> (fst (fst (borrow_book_by_patron pid bid today s)) \<longrightarrow>
      fst (get_patron_borrow_count pid (snd (borrow_book_by_patron pid bid today s))) \<le> 5)"
  using borrow_at_limit_fails [of pid s bid today]
    borrow_limit_reached [of pid bid s bk today]
    borrow_success_count [of pid bid today s]
  by auto

theorem borrow_limit_enforced_witness:
  "fst (get_patron_borrow_count ''123456''
      (library 2 [loan (IsoDay 100) Missing, loan (IsoDay 100) Missing,
                  loan (IsoDay 100) Missing, loan (IsoDay 100) Missing,
                  loan (IsoDay 100) Missing] [])) = 5
   \<and> borrow_book_by_patron ''123456'' 1 110
      (library 2 [loan (IsoDay 100) Missing, loan (IsoDay 100) Missing,
                  loan (IsoDay 100) Missing, loan (IsoDay 100) Missing,
                  loan (IsoDay 100) Missing] []) =
       ((False, BorrowLimitReached),
        (library 2 [loan (IsoDay 100) Missing, loan (IsoDay 100) Missing,
                  loan (IsoDay 100) Missing, loan (IsoDay 100) Missing,
                  loan (IsoDay 100) Missing] [])
          \<lparr>calls := [GetBookById 1, GetPatronBorrowCount ''123456'']\<rparr>)
   \<and> fst (borrow_book_by_patron ''123456'' 1 110
      (library 2 [loan (IsoDay 100) Missing, loan (IsoDay 100) Missing,
                  loan (IsoDay 100) Missing, loan (IsoDay 100) Missing] []))
       = (True, Borrowed ''Dune'' 124)
   \<and> fst (get_patron_borrow_count ''123456''
        (snd (borrow_book_by_patron ''123456'' 1 110
          (library 2 [loan (IsoDay 100) Missing, loan (IsoDay 100) Missing,
                  loan (IsoDay 100) Missing, loan (IsoDay 100) Missing] [])))) \<le> 5"
proof -
  let ?l = "loan (IsoDay 100) Missing"
  have av: "0 < available_copies (dune 2)" by (simp add: dune_def)
  have c5: "fst (get_patron_borrow_count ''123456'' (library 2 [?l, ?l, ?l, ?l, ?l] [])) = 5"
    by (simp add: library_count loan_active)
  have c4: "fst (get_patron_borrow_count ''123456'' (library 2 [?l, ?l, ?l, ?l] [])) < 5"
    by (simp add: library_count loan_active)
  have ok: "fst (borrow_book_by_patron ''123456'' 1 110 (library 2 [?l, ?l, ?l, ?l] []))
      = (True, Borrowed ''Dune'' 124)"
    unfolding borrow_writes [OF valid_patron_id_123456 library_book av c4]
    by (simp add: library_def dune_def)
  show ?thesis
    using borrow_limit_enforced [of "''123456''" "library 2 [?l, ?l, ?l, ?l, ?l] []" 1 110 "dune 2"]
      borrow_limit_enforced [of "''123456''" "library 2 [?l, ?l, ?l, ?l] []" 1 110 "dune 2"]
      c5 ok av valid_patron_id_123456
    by (simp add: library_book) (simp add: library_def)
qed

text \<open>
  C5. A borrow that has passed its checks makes two writes. When the insert of the
  borrow record goes through and the decrement of the availability fails, the borrow
  reports the failure "Database error occurred while updating book availability." and
  the inserted record stays in storage, the counters being as before. When the insert
  fails, the borrow reports "Database error occurred while creating borrow record.",
  stores nothing and makes no call to \<open>update_book_availability\<close>.
\<close>

theorem borrow_partial_failure:
  assumes "valid_patron_id pid"
    and "fst (get_book_by_id bid s) = Some bk"
    and "0 < available_copies bk"
    and "fst (get_patron_borrow_count pid s) < 5"
  shows "(outcomes s = True # False # os \<longrightarrow>
            fst (borrow_book_by_patron pid bid today s) = (False, DbErrorAvailability)
          \<and> borrow_records (snd (borrow_book_by_patron pid bid today s)) =
              borrow_records s @
                [\<lparr>patron_id = pid, borrowed_book_id = bid, borrow_date = IsoDay today,
                  due_date = IsoDay (today + 14), return_date = Missing\<rparr>]
          \<and> books (snd (borrow_book_by_patron pid bid today s)) = books s
          \<and> calls (snd (borrow_book_by_patron pid bid today s)) =
              calls s @ [GetBookById bid, GetPatronBorrowCount pid,
                         InsertBorrowRecord pid bid today (today + 14),
                         UpdateBookAvailability bid (- 1)])
       \<and> (outcomes s = False # os \<longrightarrow>
            fst (borrow_book_by_patron pid bid today s) = (False, DbErrorBorrowRecord)
          \<and> borrow_records (snd (borrow_book_by_patron pid bid today s)) = borrow_records s
          \<and> books (snd (borrow_book_by_patron pid bid today s)) = books s
          \<and> outcomes (snd (borrow_book_by_patron pid bid today s)) = os
          \<and> calls (snd (borrow_book_by_patron pid bid today s)) =
              calls s @ [GetBookById bid, GetPatronBorrowCount pid,
                         InsertBorrowRecord pid bid today (today + 14)])"
  unfolding borrow_writes [OF assms] by simp

theorem borrow_partial_failure_witness:
  "fst (borrow_book_by_patron ''123456'' 1 110 (library 2 [] [True, False]))
      = (False, DbErrorAvailability)
   \<and> borrow_records (snd (borrow_book_by_patron ''123456'' 1 110 (library 2 [] [True, False])))
      = [\<lparr>patron_id = ''123456'', borrowed_book_id = 1, borrow_date = IsoDay 110,
          due_date = IsoDay 124, return_date = Missing\<rparr>]
   \<and> books (snd (borrow_book_by_patron ''123456'' 1 110 (library 2 [] [True, False])))
      = [dune 2]
   \<and> fst (borrow_book_by_patron ''123456'' 1 110 (library 2 [] [False]))
      = (False, DbErrorBorrowRecord)
   \<and> borrow_records (snd (borrow_book_by_patron ''123456'' 1 110 (library 2 [] [False]))) = []
   \<and> calls (snd (borrow_book_by_patron ''123456'' 1 110 (library 2 [] [False])))
      = [GetBookById 1, GetPatronBorrowCount ''123456'', InsertBorrowRecord ''123456'' 1 110 124]"
proof -
  have av: "0 < available_copies (dune 2)" by (simp add: dune_def)
  have c: "fst (get_patron_borrow_count ''123456'' (library 2 [] os)) < 5" for os
    by (simp add: library_count)
  show ?thesis
    using borrow_partial_failure [OF valid_patron_id_123456 library_book av c,
        of "[True, False]" "[]" 110]
      borrow_partial_failure [OF valid_patron_id_123456 library_book av c,
        of "[False]" "[]" 110]
    by (simp add: library_def)
qed

subsection \<open>Adding a book\<close>

lemmas add_book_defs =
  add_book_to_catalog_def passes_validation_def Let_def get_book_by_isbn_def insert_book_def
  attempt_write_def log_call_def

lemma add_book_existing:
  assumes "passes_validation t a i copies"
    and "fst (get_book_by_isbn i s) = Some b"
  shows "add_book_to_catalog t a i copies s =
           ((True, BookAdded (strip t)), s\<lparr>calls := calls s @ [GetBookByIsbn i]\<rparr>)"
  using assms by (simp add: add_book_defs)

lemma add_book_fresh:
  assumes "passes_validation t a i copies"
    and "fst (get_book_by_isbn i s) = None"
  shows "add_book_to_catalog t a i copies s =
     (case outcomes s of
        False # os \<Rightarrow>
          ((False, DbErrorAddingBook),
           s\<lparr>outcomes := os,
             calls := calls s @ [GetBookByIsbn i,
                        InsertBook (strip t) (strip a) i copies copies]\<rparr>)
      | os \<Rightarrow>
          ((True, BookAdded (strip t)),
           s\<lparr>books := books s @
                [\<lparr>book_id = fresh_book_id (books s), title = strip t, author = strip a,
                  isbn = i, total_copies = copies, available_copies = copies\<rparr>],
             outcomes := drop 1 os,
             calls := calls s @ [GetBookByIsbn i,
                        InsertBook (strip t) (strip a) i copies copies]\<rparr>))"
  using assms by (simp add: add_book_defs split: list.splits bool.splits)

lemma add_book_invalid:
  assumes "\<not> passes_validation t a i copies"
  shows "\<not> fst (fst (add_book_to_catalog t a i copies s))
       \<and> snd (add_book_to_catalog t a i copies s) = s"
  using assms by (auto simp: add_book_to_catalog_def passes_validation_def)

lemma find_append_new:
  "find P xs = None \<Longrightarrow> P x \<Longrightarrow> find P (xs @ [x]) = Some x"
  by (induction xs) (auto split: if_splits)

lemma add_book_success_isbn:
  assumes "fst (fst (add_book_to_catalog t a i copies s))"
  shows "passes_validation t a i copies
       \<and> fst (get_book_by_isbn i (snd (add_book_to_catalog t a i copies s))) \<noteq> None"
proof -
  have v: "passes_validation t a i copies"
    using assms add_book_invalid [of t a i copies s] by blast
  show ?thesis
  proof (cases "fst (get_book_by_isbn i s)")
    case (Some b)
    then show ?thesis using v
      by (simp add: add_book_existing [OF v Some]) (simp add: get_book_by_isbn_def)
  next
    case None
    then have n: "find (\<lambda>b. isbn b = i) (books s) = None"
      by (simp add: get_book_by_isbn_def)
    show ?thesis using v assms
      by (auto simp: add_book_fresh [OF v None] get_book_by_isbn_def
          find_append_new [OF n] split: list.splits bool.splits)
  qed
qed
lemma add_book_success_result:
  assumes "fst (fst (add_book_to_catalog t a i copies s))"
  shows "fst (add_book_to_catalog t a i copies s) = (True, BookAdded (strip t))"
proof -
  have v: "passes_validation t a i copies"
    using assms add_book_invalid [of t a i copies s] by blast
  show ?thesis
  proof (cases "fst (get_book_by_isbn i s)")
    case (Some b)
    then show ?thesis by (simp add: add_book_existing [OF v Some])
  next
    case None
    then show ?thesis using assms
      by (auto simp: add_book_fresh [OF v None] split: list.splits bool.splits)
  qed
qed

lemma strip_latin1_space:
  "strip [CHR 0xA0] = []"
  "strip [CHR 0x85, CHR '' ''] = []"
  "strip (''Dune'' @ [CHR 0xA0]) = ''Dune''"
  by (simp_all add: strip_def isspace_def)

lemma isdigit_superscript: "isdigit (''978044101359'' @ [CHR 0xB2])"
  by (simp add: isdigit_def)

lemma add_book_blank_title:
  "add_book_to_catalog [CHR 0xA0] a i copies s = ((False, TitleRequired), s)"
  by (simp add: add_book_to_catalog_def strip_latin1_space)

lemma add_book_trailing_space:
  "passes_validation (''Dune'' @ [CHR 0xA0]) ''Frank Herbert'' ''9780441013593'' 3"
  by (simp add: passes_validation_def strip_latin1_space)
     (simp add: strip_def isspace_def isdigit_def)

lemma add_book_superscript_isbn:
  "passes_validation ''Dune'' ''Frank Herbert'' (''978044101359'' @ [CHR 0xB2]) 3"
  using isdigit_superscript
  by (simp add: passes_validation_def) (simp add: strip_def isspace_def)

lemma dune_input_valid: "passes_validation '' Dune '' ''Frank Herbert'' ''9780441013593'' 3"
  by (simp add: passes_validation_def strip_def isspace_def isdigit_def)

lemma strip_dune: "strip '' Dune '' = ''Dune''"
  by (simp add: strip_def isspace_def)

text \<open>
  C6. For a valid book input whose ISBN is already in the catalogue,
  \<open>add_book_to_catalog\<close> inserts nothing (the tables are unchanged and the only storage
  call is the lookup by ISBN) and returns success with the message of a fresh add,
  'Book "..." has been successfully added to the catalog.' with the stripped title. So
  adding the same book a second time returns what the first add returned and leaves the
  book table as the first add left it.
\<close>

theorem add_book_idempotent:
  assumes "passes_validation t a i copies"
  shows "(fst (get_book_by_isbn i s) = Some b \<longrightarrow>
            add_book_to_catalog t a i copies s =
              ((True, BookAdded (strip t)), s\<lparr>calls := calls s @ [GetBookByIsbn i]\<rparr>))
       \<and> (fst (get_book_by_isbn i s) = None \<and> fst (fst (add_book_to_catalog t a i copies s))
            \<longrightarrow> fst (add_book_to_catalog t a i copies s) = (True, BookAdded (strip t))
              \<and> length (books (snd (add_book_to_catalog t a i copies s)))
                  = length (books s) + 1)
       \<and> (fst (fst (add_book_to_catalog t a i copies s)) \<longrightarrow>
            fst (add_book_to_catalog t a i copies (snd (add_book_to_catalog t a i copies s)))
              = fst (add_book_to_catalog t a i copies s)
          \<and> books (snd (add_book_to_catalog t a i copies
                (snd (add_book_to_catalog t a i copies s))))
              = books (snd (add_book_to_catalog t a i copies s))
          \<and> outcomes (snd (add_book_to_catalog t a i copies
                (snd (add_book_to_catalog t a i copies s))))
              = outcomes (snd (add_book_to_catalog t a i copies s)))"
proof (intro conjI impI)
  assume "fst (get_book_by_isbn i s) = Some b"
  then show "add_book_to_catalog t a i copies s =
              ((True, BookAdded (strip t)), s\<lparr>calls := calls s @ [GetBookByIsbn i]\<rparr>)"
    by (rule add_book_existing [OF assms])
next
  assume f: "fst (get_book_by_isbn i s) = None \<and> fst (fst (add_book_to_catalog t a i copies s))"
  then show "fst (add_book_to_catalog t a i copies s) = (True, BookAdded (strip t))"
    by (simp add: add_book_success_result)
  from f show "length (books (snd (add_book_to_catalog t a i copies s)))
                  = length (books s) + 1"
    by (auto simp: add_book_fresh [OF assms] split: list.splits bool.splits)
next
  let ?s' = "snd (add_book_to_catalog t a i copies s)"
  assume ok: "fst (fst (add_book_to_catalog t a i copies s))"
  from add_book_success_isbn [OF ok] obtain b' where
    b': "fst (get_book_by_isbn i ?s') = Some b'" by auto
  note second = add_book_existing [OF assms b']
  show "fst (add_book_to_catalog t a i copies ?s') = fst (add_book_to_catalog t a i copies s)"
    using second add_book_success_result [OF ok] by simp
  show "books (snd (add_book_to_catalog t a i copies ?s')) = books ?s'"
    using second by simp
  show "outcomes (snd (add_book_to_catalog t a i copies ?s')) = outcomes ?s'"
    using second by simp
qed

theorem add_book_idempotent_witness:
  "add_book_to_catalog '' Dune '' ''Frank Herbert'' ''9780441013593'' 3 (library 2 [] []) =
     ((True, BookAdded ''Dune''), (library 2 [] [])\<lparr>calls := [GetBookByIsbn ''9780441013593'']\<rparr>)
   \<and> fst (add_book_to_catalog '' Dune '' ''Frank Herbert'' ''9780441013593'' 3 (empty_db []))
       = (True, BookAdded ''Dune'')
   \<and> length (books (snd (add_book_to_catalog '' Dune '' ''Frank Herbert'' ''9780441013593'' 3
        (empty_db [])))) = 1
   \<and> fst (add_book_to_catalog '' Dune '' ''Frank Herbert'' ''9780441013593'' 3
        (snd (add_book_to_catalog '' Dune '' ''Frank Herbert'' ''9780441013593'' 3
          (empty_db [])))) = (True, BookAdded ''Dune'')
   \<and> books (snd (add_book_to_catalog '' Dune '' ''Frank Herbert'' ''9780441013593'' 3
        (snd (add_book_to_catalog '' Dune '' ''Frank Herbert'' ''9780441013593'' 3
          (empty_db []))))) =
      books (snd (add_book_to_catalog '' Dune '' ''Frank Herbert'' ''9780441013593'' 3
          (empty_db [])))
   \<and> add_book_to_catalog (''Dune'' @ [CHR 0xA0]) ''Frank Herbert'' ''9780441013593'' 3
        (library 2 [] []) =
     ((True, BookAdded ''Dune''), (library 2 [] [])\<lparr>calls := [GetBookByIsbn ''9780441013593'']\<rparr>)"
proof -
  let ?add = "add_book_to_catalog '' Dune '' ''Frank Herbert'' ''9780441013593'' 3"
  have ex: "fst (get_book_by_isbn ''9780441013593'' (library 2 [] [])) = Some (dune 2)"
    by (simp add: get_book_by_isbn_def library_def dune_def)
  have no: "fst (get_book_by_isbn ''9780441013593'' (empty_db [])) = None"
    by (simp add: get_book_by_isbn_def empty_db_def)
  have ok: "fst (fst (?add (empty_db [])))"
    unfolding add_book_fresh [OF dune_input_valid no] by (simp add: empty_db_def)
  have lib: "(library 2 [] [])\<lparr>calls := calls (library 2 [] []) @ [GetBookByIsbn ''9780441013593'']\<rparr>
      = (library 2 [] [])\<lparr>calls := [GetBookByIsbn ''9780441013593'']\<rparr>"
    by (simp add: library_def)
  have len: "length (books (empty_db [])) + 1 = 1"
    by (simp add: empty_db_def)
  note first = add_book_idempotent [OF dune_input_valid, of "library 2 [] []" "dune 2"]
  note second = add_book_idempotent [OF dune_input_valid, of "empty_db []" "dune 2"]
  have c1: "?add (library 2 [] []) =
     ((True, BookAdded ''Dune''), (library 2 [] [])\<lparr>calls := [GetBookByIsbn ''9780441013593'']\<rparr>)"
    using first ex unfolding lib strip_dune by blast
  have c2: "fst (?add (empty_db [])) = (True, BookAdded ''Dune'')
      \<and> length (books (snd (?add (empty_db [])))) = 1"
    using second no ok unfolding len strip_dune by blast
  have c3: "fst (?add (snd (?add (empty_db [])))) = fst (?add (empty_db []))
      \<and> books (snd (?add (snd (?add (empty_db []))))) = books (snd (?add (empty_db [])))"
    using second ok by blast
  note third = add_book_idempotent [OF add_book_trailing_space, of "library 2 [] []" "dune 2"]
  have c4: "add_book_to_catalog (''Dune'' @ [CHR 0xA0]) ''Frank Herbert'' ''9780441013593'' 3
        (library 2 [] []) =
     ((True, BookAdded ''Dune''), (library 2 [] [])\<lparr>calls := [GetBookByIsbn ''9780441013593'']\<rparr>)"
    using third ex unfolding lib strip_latin1_space by blast
  show ?thesis
    using c1 c2 c3 c4 by simp
qed

lemma library_quote:
  "fst (calculate_late_fee_for_book ''123456'' 1 today (library n [loan (IsoDay due) Missing] os))
     = Inr \<lparr>fee_amount = spec_computeLateFee (max 0 (today - due)),
             days_overdue = max 0 (today - due), status = NotYetReturned\<rparr>"
  by (simp add: calculate_resolved [OF valid_patron_id_123456 library_book
        library_resolved_one loan_dates(1)] loan_dates)

text \<open>
  C9. When the quote for the patron and the book has \<open>fee_amount = 0\<close>,
  \<open>pay_late_fees\<close> fails with the message "no late fees owed", returns no transaction
  id and makes no \<open>process_payment\<close> call, whichever gateway is supplied.
\<close>

theorem zero_fee_skips_gateway:
  assumes "fst (calculate_late_fee_for_book pid bid today s) = Inr q"
    and "fee_amount q = 0"
  shows "pay_late_fees pid bid gateway default_gateway today s =
           (Inr (False, NoLateFeesOwed, None), [],
            snd (calculate_late_fee_for_book pid bid today s))"
  using assms by (simp add: pay_late_fees_def split_def)

theorem zero_fee_skips_gateway_witness:
  "fst (calculate_late_fee_for_book ''123456'' 1 100
          (library 2 [loan (IsoDay 100) Missing] [])) =
     Inr \<lparr>fee_amount = 0, days_overdue = 0, status = NotYetReturned\<rparr>
   \<and> fst (pay_late_fees ''123456'' 1 (Some (\<lambda>p a d. GatewayReturns True ''txn_1'' ''ok''))
          (\<lambda>p a d. GatewayRaises) 100 (library 2 [loan (IsoDay 100) Missing] [])) =
     Inr (False, NoLateFeesOwed, None)
   \<and> fst (snd (pay_late_fees ''123456'' 1 (Some (\<lambda>p a d. GatewayReturns True ''txn_1'' ''ok''))
          (\<lambda>p a d. GatewayRaises) 100 (library 2 [loan (IsoDay 100) Missing] []))) = []
   \<and> fst (pay_late_fees ''123456'' 1 (Some (\<lambda>p a d. GatewayReturns True ''txn_1'' ''ok''))
          (\<lambda>p a d. GatewayRaises) 110 (library 2 [loan (IsoDay 100) Missing] [])) =
     Inr (True, PaymentAccepted, Some ''txn_1'')
   \<and> fst (snd (pay_late_fees ''123456'' 1 (Some (\<lambda>p a d. GatewayReturns True ''txn_1'' ''ok''))
          (\<lambda>p a d. GatewayRaises) 110 (library 2 [loan (IsoDay 100) Missing] []))) =
     [(''123456'', 13 / 2, ''Late fees for '' @ [CHR 0x27] @ ''Dune'' @ [CHR 0x27])]"
proof -
  let ?s = "library 2 [loan (IsoDay 100) Missing] []"
  have q0: "fst (calculate_late_fee_for_book ''123456'' 1 100 ?s) =
     Inr \<lparr>fee_amount = 0, days_overdue = 0, status = NotYetReturned\<rparr>"
    by (simp add: library_quote spec_fee_values)
  have q10: "fst (calculate_late_fee_for_book ''123456'' 1 110 ?s) =
     Inr \<lparr>fee_amount = 13 / 2, days_overdue = 10, status = NotYetReturned\<rparr>"
    by (simp add: library_quote spec_fee_values)
  have bk: "fst (get_book_by_id 1 (snd (calculate_late_fee_for_book ''123456'' 1 110 ?s)))
      = Some (dune 2)"
    using valid_patron_id_123456
    by (simp add: calculate_late_fee_for_book_def valid_patron_id_def Let_def
        get_book_by_id_def update_borrow_record_return_date_def log_call_def split_def
        library_def loan_def dune_def resolve_record_def find_active_def is_active_def)
  have paid: "fst (pay_late_fees ''123456'' 1 (Some (\<lambda>p a d. GatewayReturns True ''txn_1'' ''ok''))
          (\<lambda>p a d. GatewayRaises) 110 ?s) = Inr (True, PaymentAccepted, Some ''txn_1'')
      \<and> fst (snd (pay_late_fees ''123456'' 1 (Some (\<lambda>p a d. GatewayReturns True ''txn_1'' ''ok''))
          (\<lambda>p a d. GatewayRaises) 110 ?s)) =
        [(''123456'', 13 / 2, ''Late fees for '' @ [CHR 0x27] @ ''Dune'' @ [CHR 0x27])]"
    using q10 bk by (simp add: pay_late_fees_def split_def dune_def)
  have z: "fee_amount \<lparr>fee_amount = 0, days_overdue = 0, status = NotYetReturned\<rparr> = 0"
    by simp
  show ?thesis
    using zero_fee_skips_gateway [OF q0 z] q0 paid
    by simp
qed

subsection \<open>The book table under the three operations\<close>

lemma fold_max_ge: "(a::int) \<le> fold max xs a"
  by (induction xs arbitrary: a) (auto intro: order_trans [OF max.cobounded2])

lemma fold_max_mem: "x \<in> set xs \<Longrightarrow> (x::int) \<le> fold max xs a"
proof (induction xs arbitrary: a)
  case Nil
  then show ?case by simp
next
  case (Cons y ys)
  show ?case
  proof (cases "x = y")
    case True
    have "x \<le> max y a" using True by simp
    also have "\<dots> \<le> fold max ys (max y a)" by (rule fold_max_ge)
    finally show ?thesis by simp
  next
    case False
    then have "x \<in> set ys" using Cons.prems by simp
    then show ?thesis using Cons.IH by simp
  qed
qed

lemma fresh_book_id_new: "fresh_book_id bs \<notin> book_id ` set bs"
proof
  assume "fresh_book_id bs \<in> book_id ` set bs"
  then have "fresh_book_id bs \<in> set (map book_id bs)" by simp
  from fold_max_mem [OF this, of 0] show False by (simp add: fresh_book_id_def)
qed

lemma add_copies_id [simp]: "book_id (add_copies bid d b) = book_id b"
  by (simp add: add_copies_def)

lemma found_unique:
  assumes "distinct (map book_id bs)"
    and "find (\<lambda>b. book_id b = bid) bs = Some bk"
    and "b \<in> set bs"
    and "book_id b = bid"
  shows "b = bk"
proof -
  have "bk \<in> set bs" and "book_id bk = bid"
    using assms(2) by (auto simp: find_Some_iff)
  moreover have "inj_on book_id (set bs)"
    using assms(1) by (simp add: distinct_map)
  ultimately show ?thesis using assms(3,4) by (auto dest: inj_onD)
qed

lemma add_copies_ok:
  assumes "books_ok s"
    and "find (\<lambda>b. book_id b = bid) (books s) = Some bk"
    and "0 \<le> available_copies bk + d"
    and "available_copies bk + d \<le> total_copies bk"
    and "books s' = map (add_copies bid d) (books s)"
  shows "books_ok s'"
proof -
  have dist: "distinct (map book_id (books s))" and bnd: "list_all within_bounds (books s)"
    using assms(1) by (simp_all add: books_ok_def)
  have ids: "map book_id (books s') = map book_id (books s)"
    by (simp add: assms(5) comp_def)
  have "within_bounds (add_copies bid d b)" if b: "b \<in> set (books s)" for b
  proof (cases "book_id b = bid")
    case True
    then have "b = bk" using found_unique [OF dist assms(2) b] by simp
    moreover have "within_bounds bk" using bnd b \<open>b = bk\<close> by (simp add: list_all_iff)
    ultimately show ?thesis using True assms(3,4)
      by (simp add: add_copies_def within_bounds_def)
  next
    case False
    then show ?thesis using bnd b by (simp add: add_copies_def list_all_iff)
  qed
  then have "list_all within_bounds (books s')"
    by (simp add: assms(5) list_all_iff)
  then show ?thesis using dist ids by (simp add: books_ok_def)
qed

lemma add_book_books:
  "books (snd (add_book_to_catalog t a i copies s)) = books s
   \<or> (0 < copies \<and> books (snd (add_book_to_catalog t a i copies s)) = books s @
        [\<lparr>book_id = fresh_book_id (books s), title = strip t, author = strip a,
          isbn = i, total_copies = copies, available_copies = copies\<rparr>])"
  by (auto simp: add_book_to_catalog_def Let_def get_book_by_isbn_def insert_book_def
      attempt_write_def log_call_def split: list.splits)

lemma borrow_books:
  "books (snd (borrow_book_by_patron pid bid today s)) = books s
   \<or> (\<exists>bk. find (\<lambda>b. book_id b = bid) (books s) = Some bk \<and> 0 < available_copies bk
        \<and> books (snd (borrow_book_by_patron pid bid today s))
            = map (add_copies bid (- 1)) (books s))"
  by (auto simp: borrow_defs split: option.splits list.splits)

lemmas return_defs =
  return_book_by_patron_def valid_patron_id_def Let_def get_book_by_id_def
  update_borrow_record_return_date_def update_book_availability_def
  attempt_write_def log_call_def

lemma return_books:
  "books (snd (return_book_by_patron pid bid today s)) = books s
   \<or> (\<exists>fr. find (\<lambda>b. book_id b = bid) (books s) = Some fr
        \<and> available_copies fr < total_copies fr
        \<and> books (snd (return_book_by_patron pid bid today s))
            = map (add_copies bid 1) (books s))"
  by (auto simp: return_defs split: option.splits list.splits stored_date.splits)

lemma books_ok_cong: "books s' = books s \<Longrightarrow> books_ok s' = books_ok s"
  by (simp add: books_ok_def)

lemma found_within_bounds:
  "books_ok s \<Longrightarrow> find (\<lambda>b. book_id b = bid) (books s) = Some bk \<Longrightarrow> within_bounds bk"
  by (auto simp: books_ok_def list_all_iff find_Some_iff)

lemma add_book_ok:
  assumes "books_ok s"
  shows "books_ok (snd (add_book_to_catalog t a i copies s))"
proof -
  let ?s' = "snd (add_book_to_catalog t a i copies s)"
  let ?new = "\<lparr>book_id = fresh_book_id (books s), title = strip t, author = strip a,
          isbn = i, total_copies = copies, available_copies = copies\<rparr>"
  from add_book_books [of t a i copies s]
  consider "books ?s' = books s" | "0 < copies" "books ?s' = books s @ [?new]" by blast
  then show ?thesis
  proof cases
    case 1
    show ?thesis using assms books_ok_cong [OF 1] by simp
  next
    case 2
    have "book_id ?new \<notin> book_id ` set (books s)"
      using fresh_book_id_new [of "books s"] by simp
    then show ?thesis using assms 2
      by (simp add: books_ok_def within_bounds_def)
  qed
qed

lemma borrow_ok:
  assumes "books_ok s"
  shows "books_ok (snd (borrow_book_by_patron pid bid today s))"
proof -
  let ?s' = "snd (borrow_book_by_patron pid bid today s)"
  from borrow_books [of pid bid today s]
  consider "books ?s' = books s"
    | bk where "find (\<lambda>b. book_id b = bid) (books s) = Some bk" "0 < available_copies bk"
        "books ?s' = map (add_copies bid (- 1)) (books s)" by blast
  then show ?thesis
  proof cases
    case 1
    show ?thesis using assms books_ok_cong [OF 1] by simp
  next
    case 2
    have "within_bounds bk" using assms 2(1) by (rule found_within_bounds)
    then have "0 \<le> available_copies bk + (- 1)" "available_copies bk + (- 1) \<le> total_copies bk"
      using 2(2) by (simp_all add: within_bounds_def)
    then show ?thesis using add_copies_ok [OF assms 2(1) _ _ 2(3)] by simp
  qed
qed

lemma return_ok:
  assumes "books_ok s"
  shows "books_ok (snd (return_book_by_patron pid bid today s))"
proof -
  let ?s' = "snd (return_book_by_patron pid bid today s)"
  from return_books [of pid bid today s]
  consider "books ?s' = books s"
    | fr where "find (\<lambda>b. book_id b = bid) (books s) = Some fr"
        "available_copies fr < total_copies fr"
        "books ?s' = map (add_copies bid 1) (books s)" by blast
  then show ?thesis
  proof cases
    case 1
    show ?thesis using assms books_ok_cong [OF 1] by simp
  next
    case 2
    have "within_bounds fr" using assms 2(1) by (rule found_within_bounds)
    then have "0 \<le> available_copies fr + 1" "available_copies fr + 1 \<le> total_copies fr"
      using 2(2) by (simp_all add: within_bounds_def)
    then show ?thesis using add_copies_ok [OF assms 2(1) _ _ 2(3)] by simp
  qed
qed

lemma apply_operation_ok: "books_ok s \<Longrightarrow> books_ok (apply_operation x s)"
  by (cases x) (simp_all add: add_book_ok borrow_ok return_ok)

lemma run_ok: "books_ok s \<Longrightarrow> books_ok (run xs s)"
  by (induction xs arbitrary: s) (simp_all add: apply_operation_ok)

lemma books_ok_bounds:
  "books_ok s \<Longrightarrow> b \<in> set (books s) \<Longrightarrow>
     0 \<le> available_copies b \<and> available_copies b \<le> total_copies b"
  by (simp add: books_ok_def list_all_iff within_bounds_def)

lemma mark_effect:
  assumes "fst (update_borrow_record_return_date pid bid w s) = Some row"
  shows "\<exists>s2. update_borrow_record_return_date pid bid w (s\<lparr>calls := calls s @ [c]\<rparr>)
              = (Some row, s2)
           \<and> books s2 = books s
           \<and> calls s2 = calls s @ [c, UpdateBorrowRecordReturnDate pid bid w]"
proof (cases w)
  case None
  then show ?thesis using assms
    by (simp add: update_borrow_record_return_date_def log_call_def)
next
  case (Some d)
  show ?thesis
  proof (cases "find_active pid bid (borrow_records s)")
    case None
    then show ?thesis using assms Some
      by (simp add: update_borrow_record_return_date_def log_call_def)
  next
    case (Some r)
    note r = this
    show ?thesis
    proof (cases "outcomes s")
      case Nil
      then show ?thesis using assms \<open>w = Some d\<close> r
        by (simp add: update_borrow_record_return_date_def log_call_def attempt_write_def)
    next
      case (Cons ok os)
      then show ?thesis using assms \<open>w = Some d\<close> r
        by (cases ok)
           (simp_all add: update_borrow_record_return_date_def log_call_def attempt_write_def)
    qed
  qed
qed

lemma return_skips_increment:
  assumes "valid_patron_id pid"
    and "fst (get_book_by_id bid s) = Some bk"
    and "\<not> available_copies bk < total_copies bk"
    and "fst (update_borrow_record_return_date pid bid (Some today) s) = Some row"
  shows "fst (fst (return_book_by_patron pid bid today s))
       \<and> books (snd (return_book_by_patron pid bid today s)) = books s
       \<and> calls (snd (return_book_by_patron pid bid today s)) =
           calls s @ [GetBookById bid, UpdateBorrowRecordReturnDate pid bid (Some today),
                      GetBookById bid]"
proof -
  from mark_effect [OF assms(4), of "GetBookById bid"] obtain s2 where
    m: "update_borrow_record_return_date pid bid (Some today)
          (s\<lparr>calls := calls s @ [GetBookById bid]\<rparr>) = (Some row, s2)"
    and b: "books s2 = books s"
    and c: "calls s2 = calls s @ [GetBookById bid,
              UpdateBorrowRecordReturnDate pid bid (Some today)]"
    by blast
  have f: "find (\<lambda>b. book_id b = bid) (books s) = Some bk"
    using assms(2) by (simp add: get_book_by_id_def)
  show ?thesis
    using assms(1,3) f
    by (simp add: return_book_by_patron_def valid_patron_id_def Let_def get_book_by_id_def
        log_call_def m b c split: stored_date.split)
qed
lemma mark_log_irrelevant:
  "fst (update_borrow_record_return_date pid bid w (s\<lparr>calls := cs\<rparr>))
     = fst (update_borrow_record_return_date pid bid w s)"
  by (cases w; cases "find_active pid bid (borrow_records s)"; cases "outcomes s")
     (simp_all add: update_borrow_record_return_date_def log_call_def attempt_write_def Let_def)

lemma mark_books:
  "books (snd (update_borrow_record_return_date pid bid w s)) = books s"
  by (cases w; cases "find_active pid bid (borrow_records s)"; cases "outcomes s")
     (simp_all add: update_borrow_record_return_date_def log_call_def attempt_write_def Let_def)

lemma availability_books:
  "books (snd (update_book_availability bid d s)) =
     (if fst (update_book_availability bid d s) then map (add_copies bid d) (books s)
      else books s)"
  by (cases "outcomes s")
     (simp_all add: update_book_availability_def log_call_def attempt_write_def Let_def)

lemma return_increments:
  assumes "fst (get_book_by_id bid s) = Some bk"
    and "available_copies bk < total_copies bk"
    and "fst (fst (return_book_by_patron pid bid today s))"
  shows "books (snd (return_book_by_patron pid bid today s)) = map (add_copies bid 1) (books s)"
proof -
  have f: "find (\<lambda>b. book_id b = bid) (books s) = Some bk"
    using assms(1) by (simp add: get_book_by_id_def)
  have v: "\<not> (pid = [] \<or> \<not> isdigit pid \<or> length pid \<noteq> 6)"
    using assms(3) by - (rule ccontr, simp add: return_book_by_patron_def)
  show ?thesis
  proof (cases "fst (update_borrow_record_return_date pid bid (Some today) s)")
    case None
    then have False
      using assms(3) v f
      by (simp add: return_book_by_patron_def Let_def split_def get_book_by_id_def
          log_call_def mark_log_irrelevant)
    then show ?thesis ..
  next
    case (Some row)
    show ?thesis
      using assms(2,3) v f Some
      by (simp add: return_book_by_patron_def Let_def split_def get_book_by_id_def
          log_call_def mark_log_irrelevant mark_books availability_books
          split: if_splits stored_date.splits)
  qed
qed
lemma find_add_copies:
  "find (\<lambda>b. book_id b = bid) (map (add_copies bid' d) bs)
     = map_option (add_copies bid' d) (find (\<lambda>b. book_id b = bid) bs)"
  by (induction bs) simp_all

text \<open>
  C1. Every sequence of \<open>add_book_to_catalog\<close>, \<open>borrow_book_by_patron\<close> and
  \<open>return_book_by_patron\<close> operations keeps every book of a well-formed book table
  (unique ids, counters within bounds; the empty catalogue is one) within
  \<open>0 \<le> available_copies \<le> total_copies\<close>, after the whole sequence and after each of
  its prefixes. A borrow of a book with \<open>available_copies \<le> 0\<close> fails and writes
  nothing. A return changes the book table only by adding 1 to the counter of a book
  that it read with \<open>available_copies < total_copies\<close>, which a successful return of
  such a book does; when the book is read with \<open>available_copies \<ge> total_copies\<close> and
  the borrow record was marked, the return leaves the counters alone, makes no
  \<open>update_book_availability\<close> call and succeeds.
\<close>

theorem availability_within_bounds:
  "(books_ok s \<longrightarrow>
      books_ok (run ops s)
    \<and> (\<forall>k. books_ok (run (take k ops) s))
    \<and> (\<forall>b \<in> set (books (run ops s)).
          0 \<le> available_copies b \<and> available_copies b \<le> total_copies b))
   \<and> books_ok (empty_db os)
   \<and> (valid_patron_id pid \<and> fst (get_book_by_id bid s) = Some bk \<and> available_copies bk \<le> 0
        \<longrightarrow> fst (borrow_book_by_patron pid bid today s) = (False, NotAvailable)
          \<and> books (snd (borrow_book_by_patron pid bid today s)) = books s
          \<and> borrow_records (snd (borrow_book_by_patron pid bid today s)) = borrow_records s)
   \<and> (books (snd (return_book_by_patron pid bid today s)) = books s
        \<or> (\<exists>fr. fst (get_book_by_id bid s) = Some fr
              \<and> available_copies fr < total_copies fr
              \<and> books (snd (return_book_by_patron pid bid today s))
                  = map (add_copies bid 1) (books s)))
   \<and> (fst (get_book_by_id bid s) = Some bk \<and> available_copies bk < total_copies bk
        \<and> fst (fst (return_book_by_patron pid bid today s))
        \<longrightarrow> books (snd (return_book_by_patron pid bid today s))
              = map (add_copies bid 1) (books s)
          \<and> fst (get_book_by_id bid (snd (return_book_by_patron pid bid today s)))
              = Some (bk\<lparr>available_copies := available_copies bk + 1\<rparr>))
   \<and> (valid_patron_id pid \<and> fst (get_book_by_id bid s) = Some bk
        \<and> \<not> available_copies bk < total_copies bk
        \<and> fst (update_borrow_record_return_date pid bid (Some today) s) = Some row
        \<longrightarrow> fst (fst (return_book_by_patron pid bid today s))
          \<and> books (snd (return_book_by_patron pid bid today s)) = books s
          \<and> calls (snd (return_book_by_patron pid bid today s)) =
              calls s @ [GetBookById bid, UpdateBorrowRecordReturnDate pid bid (Some today),
                         GetBookById bid])"
proof (intro conjI impI allI ballI)
  assume ok: "books_ok s"
  then show r: "books_ok (run ops s)" by (rule run_ok)
  show "books_ok (run (take k ops) s)" for k using ok by (rule run_ok)
  show "0 \<le> available_copies b" "available_copies b \<le> total_copies b"
    if "b \<in> set (books (run ops s))" for b
    using books_ok_bounds [OF r that] by simp_all
next
  show "books_ok (empty_db os)" by (simp add: books_ok_def empty_db_def)
next
  assume a: "valid_patron_id pid \<and> fst (get_book_by_id bid s) = Some bk
      \<and> available_copies bk \<le> 0"
  then have e: "borrow_book_by_patron pid bid today s =
           ((False, NotAvailable), s\<lparr>calls := calls s @ [GetBookById bid]\<rparr>)"
    using borrow_not_available [of pid bid s bk today] by blast
  show "fst (borrow_book_by_patron pid bid today s) = (False, NotAvailable)"
    and "books (snd (borrow_book_by_patron pid bid today s)) = books s"
    and "borrow_records (snd (borrow_book_by_patron pid bid today s)) = borrow_records s"
    unfolding e by simp_all
next
  show "books (snd (return_book_by_patron pid bid today s)) = books s
        \<or> (\<exists>fr. fst (get_book_by_id bid s) = Some fr
              \<and> available_copies fr < total_copies fr
              \<and> books (snd (return_book_by_patron pid bid today s))
                  = map (add_copies bid 1) (books s))"
    using return_books [of pid bid today s] by (simp add: get_book_by_id_def)
next
  assume a: "fst (get_book_by_id bid s) = Some bk \<and> available_copies bk < total_copies bk
        \<and> fst (fst (return_book_by_patron pid bid today s))"
  then have b: "books (snd (return_book_by_patron pid bid today s))
              = map (add_copies bid 1) (books s)"
    using return_increments [of bid s bk pid today] by blast
  then show "books (snd (return_book_by_patron pid bid today s))
              = map (add_copies bid 1) (books s)" .
  have "find (\<lambda>b. book_id b = bid) (books s) = Some bk"
    using a by (simp add: get_book_by_id_def)
  then show "fst (get_book_by_id bid (snd (return_book_by_patron pid bid today s)))
              = Some (bk\<lparr>available_copies := available_copies bk + 1\<rparr>)"
    by (auto simp: get_book_by_id_def b find_add_copies add_copies_def find_Some_iff)
next
  assume a: "valid_patron_id pid \<and> fst (get_book_by_id bid s) = Some bk
        \<and> \<not> available_copies bk < total_copies bk
        \<and> fst (update_borrow_record_return_date pid bid (Some today) s) = Some row"
  then have "fst (fst (return_book_by_patron pid bid today s))
       \<and> books (snd (return_book_by_patron pid bid today s)) = books s
       \<and> calls (snd (return_book_by_patron pid bid today s)) =
           calls s @ [GetBookById bid, UpdateBorrowRecordReturnDate pid bid (Some today),
                      GetBookById bid]"
    using return_skips_increment [of pid bid s bk today row] by blast
  then show "fst (fst (return_book_by_patron pid bid today s))"
    and "books (snd (return_book_by_patron pid bid today s)) = books s"
    and "calls (snd (return_book_by_patron pid bid today s)) =
           calls s @ [GetBookById bid, UpdateBorrowRecordReturnDate pid bid (Some today),
                      GetBookById bid]"
    by simp_all
qed

lemma session_counters:
  "map available_copies (books (run session (empty_db []))) = [1]"
  "map available_copies (books (run (take 2 session) (empty_db []))) = [0]"
  "map available_copies (books (run (take 3 session) (empty_db []))) = [0]"
  by code_simp+

lemma library_marked:
  "fst (update_borrow_record_return_date ''123456'' 1 (Some 110)
          (library n [loan (IsoDay 100) Missing] []))
     = Some (loan (IsoDay 100) (IsoDay 110))"
  by (simp add: update_borrow_record_return_date_def log_call_def attempt_write_def Let_def
      library_def loan_def find_active_def is_active_def)

lemma library_return_ok:
  "fst (fst (return_book_by_patron ''123456'' 1 110 (library 2 [loan (IsoDay 100) Missing] [])))"
  by code_simp

theorem availability_within_bounds_witness:
  "books_ok (empty_db [])
   \<and> books_ok (run session (empty_db []))
   \<and> books_ok (run (take 2 session) (empty_db []))
   \<and> map available_copies (books (run (take 2 session) (empty_db []))) = [0]
   \<and> map available_copies (books (run (take 3 session) (empty_db []))) = [0]
   \<and> map available_copies (books (run session (empty_db []))) = [1]
   \<and> fst (borrow_book_by_patron ''123456'' 1 110 (library 0 [] [])) = (False, NotAvailable)
   \<and> books (snd (borrow_book_by_patron ''123456'' 1 110 (library 0 [] []))) = [dune 0]
   \<and> fst (get_book_by_id 1 (snd (return_book_by_patron ''123456'' 1 110
            (library 2 [loan (IsoDay 100) Missing] [])))) = Some (dune 3)
   \<and> fst (fst (return_book_by_patron ''123456'' 1 110
            (library 3 [loan (IsoDay 100) Missing] [])))
   \<and> books (snd (return_book_by_patron ''123456'' 1 110
            (library 3 [loan (IsoDay 100) Missing] []))) = [dune 3]"
proof -
  note run = availability_within_bounds [where s = "empty_db []" and ops = session
      and os = "[]" and pid = "''123456''" and bid = 1 and bk = "dune 0" and today = 110
      and row = "loan (IsoDay 100) (IsoDay 110)"]
  note refuse = availability_within_bounds [where s = "library 0 [] []" and ops = "[]"
      and os = "[]" and pid = "''123456''" and bid = 1 and bk = "dune 0" and today = 110
      and row = "loan (IsoDay 100) (IsoDay 110)"]
  note incr = availability_within_bounds [where s = "library 2 [loan (IsoDay 100) Missing] []"
      and ops = "[]" and os = "[]" and pid = "''123456''" and bid = 1 and bk = "dune 2"
      and today = 110 and row = "loan (IsoDay 100) (IsoDay 110)"]
  note skip = availability_within_bounds [where s = "library 3 [loan (IsoDay 100) Missing] []"
      and ops = "[]" and os = "[]" and pid = "''123456''" and bid = 1 and bk = "dune 3"
      and today = 110 and row = "loan (IsoDay 100) (IsoDay 110)"]
  have e: "books_ok (empty_db [])" using run by blast
  have r: "books_ok (run session (empty_db []))"
    and r2: "books_ok (run (take 2 session) (empty_db []))"
    using run e by blast+
  have b: "fst (borrow_book_by_patron ''123456'' 1 110 (library 0 [] [])) = (False, NotAvailable)
      \<and> books (snd (borrow_book_by_patron ''123456'' 1 110 (library 0 [] []))) = [dune 0]"
    using refuse valid_patron_id_123456 library_book [of 0 "[]" "[]"]
    by (simp add: dune_def) (simp add: library_def dune_def)
  have i: "fst (get_book_by_id 1 (snd (return_book_by_patron ''123456'' 1 110
            (library 2 [loan (IsoDay 100) Missing] [])))) = Some (dune 3)"
    using incr library_book [of 2 "[loan (IsoDay 100) Missing]" "[]"] library_return_ok
    by (simp add: dune_def)
  have k: "fst (fst (return_book_by_patron ''123456'' 1 110
            (library 3 [loan (IsoDay 100) Missing] [])))
      \<and> books (snd (return_book_by_patron ''123456'' 1 110
            (library 3 [loan (IsoDay 100) Missing] []))) = [dune 3]"
    using skip valid_patron_id_123456 library_book [of 3 "[loan (IsoDay 100) Missing]" "[]"]
      library_marked [of 3]
    by (simp add: dune_def) (simp add: library_def dune_def)
  show ?thesis
    using e r r2 b i k session_counters by simp
qed

end
